theory Spec2Isabelle
  imports Main "HOL-Library.Signed_Division"
begin

section \<open>The gorc2 client: a shallow embedding\<close>

text \<open>
  The theory follows the Go package \<^verbatim>\<open>gorc2\<close> under
  \<^verbatim>\<open>Godeps/_workspace/src/github.com/liquidgecka/gorc2\<close>: the error types and \<open>newError\<close>
  (errors.go), \<open>Collection\<close>, \<open>Item\<close> and \<open>Event\<close> with their conditional operations (item.go),
  the iterator, the key-value operations and the event operations (the three sources held in
  list.go), the client with \<open>doRequest\<close>, \<open>emptyReply\<close> and \<open>jsonReply\<close> (the last source held
  in benchmark_test.go) and \<open>GetLinks\<close> (the graph source). Go strings are byte strings (\<^typ>\<open>string\<close>), Go \<^verbatim>\<open>int\<close>
  and \<^verbatim>\<open>int64\<close> values are \<^typ>\<open>int\<close> with the 64-bit wrap-around written out where a value
  can leave the range, a \<^verbatim>\<open>(T, error)\<close> result is a pair of options (\<^verbatim>\<open>nil\<close> is \<^term>\<open>None\<close>),
  a panic is the left summand of a sum, and the network is an explicit \<open>world\<close> that every
  call takes and returns.
\<close>

subsection \<open>Functions of the Go standard library used by the package\<close>

text \<open>\<^verbatim>\<open>strings.LastIndex(s, sep)\<close> for a one-byte separator; \<open>-1\<close> when it does not occur.\<close>

definition LastIndex :: "string \<Rightarrow> char \<Rightarrow> int" where
  "LastIndex s c =
     (if c \<in> set s then int (length s) - 1 - int (length (takeWhile (\<lambda>x. x \<noteq> c) (rev s)))
      else - 1)"

text \<open>The slice expression \<^verbatim>\<open>s[i : len(s)]\<close> for \<open>0 \<le> i \<le> len(s)\<close>.\<close>

definition slice_from :: "string \<Rightarrow> int \<Rightarrow> string" where
  "slice_from s i = drop (nat i) s"

text \<open>\<^verbatim>\<open>strings.Split(s, sep)\<close> for a one-byte separator: one more part than separators.\<close>

fun Split :: "string \<Rightarrow> char \<Rightarrow> string list" where
  "Split [] c = [[]]"
| "Split (x # xs) c =
     (if x = c then [] # Split xs c
      else (case Split xs c of [] \<Rightarrow> [[x]] | p # ps \<Rightarrow> (x # p) # ps))"

text \<open>\<^verbatim>\<open>strings.TrimPrefix(s, prefix)\<close>.\<close>

definition TrimPrefix :: "string \<Rightarrow> string \<Rightarrow> string" where
  "TrimPrefix s p = (if take (length p) s = p then drop (length p) s else s)"

text \<open>\<^verbatim>\<open>strings.Join(parts, sep)\<close>.\<close>

fun Join :: "string list \<Rightarrow> string \<Rightarrow> string" where
  "Join [] sep = []"
| "Join [p] sep = p"
| "Join (p # q # ps) sep = p @ sep @ Join (q # ps) sep"

text \<open>Decimal digits, \<^verbatim>\<open>strconv.Itoa\<close> / \<^verbatim>\<open>strconv.FormatInt(_, 10)\<close> and the verb \<^verbatim>\<open>%d\<close>.\<close>

definition digit_char :: "nat \<Rightarrow> char" where
  "digit_char d = char_of (48 + d)"

fun nat_digits :: "nat \<Rightarrow> string" where
  "nat_digits n = (if n < 10 then [digit_char n] else nat_digits (n div 10) @ [digit_char (n mod 10)])"

declare nat_digits.simps [simp del]

definition Itoa :: "int \<Rightarrow> string" where
  "Itoa i = (if i < 0 then CHR ''-'' # nat_digits (nat (- i)) else nat_digits (nat i))"

text \<open>
  \<^verbatim>\<open>strconv.ParseInt(s, 10, 64)\<close>: an optional sign, at least one decimal digit, nothing else,
  and a value in the int64 range; any other string is an error.
\<close>

definition is_digit :: "char \<Rightarrow> bool" where
  "is_digit c = ((48::nat) \<le> of_char c \<and> of_char c \<le> (57::nat))"

definition digits_value :: "string \<Rightarrow> int" where
  "digits_value ds = foldl (\<lambda>acc c. acc * 10 + (int (of_char c) - 48)) 0 ds"

definition int64_min :: int where "int64_min = - (2 ^ 63)"
definition int64_max :: int where "int64_max = 2 ^ 63 - 1"

definition ParseInt :: "string \<Rightarrow> string + int" where
  "ParseInt s =
     (let (neg, ds) = (case s of
                         [] \<Rightarrow> (False, [])
                       | c # r \<Rightarrow> if c = CHR ''+'' then (False, r)
                                  else if c = CHR ''-'' then (True, r) else (False, s))
      in if ds = [] \<or> \<not> list_all is_digit ds then Inl ''invalid syntax''
         else let v = (if neg then - digits_value ds else digits_value ds)
              in if v < int64_min \<or> int64_max < v then Inl ''value out of range'' else Inr v)"

text \<open>Arithmetic on int64: the wrap-around of \<open>+\<close> and \<open>*\<close>; \<open>/\<close> and \<open>%\<close> truncate towards zero
  (\<open>sdiv\<close>, \<open>smod\<close>).\<close>

definition wrap64 :: "int \<Rightarrow> int" where
  "wrap64 x = (x + 2 ^ 63) mod 2 ^ 64 - 2 ^ 63"

subsection \<open>time.Time\<close>

text \<open>
  A \<^verbatim>\<open>time.Time\<close> is an instant: whole seconds (here counted from the Unix epoch) and
  nanoseconds within the second, \<open>0 \<le> nsec < 10^9\<close>. The location and the monotonic clock
  reading play no role in this package.
\<close>

record Time =
  sec :: int
  nsec :: int

definition valid_Time :: "Time \<Rightarrow> bool" where
  "valid_Time t = (0 \<le> nsec t \<and> nsec t < 1000000000)"

text \<open>\<^verbatim>\<open>t.UnixNano()\<close>: \<^verbatim>\<open>sec*1e9 + nsec\<close> computed in int64.\<close>

definition UnixNano :: "Time \<Rightarrow> int" where
  "UnixNano t = wrap64 (sec t * 1000000000 + nsec t)"

text \<open>\<^verbatim>\<open>time.Unix(sec, nsec)\<close>: brings \<open>nsec\<close> into \<open>[0, 10^9)\<close>.\<close>

definition Unix :: "int \<Rightarrow> int \<Rightarrow> Time" where
  "Unix s n =
     (if n < 0 \<or> 1000000000 \<le> n then
        (let k = n sdiv 1000000000; s1 = s + k; n1 = n - k * 1000000000
         in if n1 < 0 then \<lparr>sec = s1 - 1, nsec = n1 + 1000000000\<rparr> else \<lparr>sec = s1, nsec = n1\<rparr>)
      else \<lparr>sec = s, nsec = n\<rparr>)"

text \<open>The zero value \<^verbatim>\<open>time.Time{}\<close>: January 1, year 1, 00:00:00 UTC.\<close>

definition zero_Time :: Time where
  "zero_Time = \<lparr>sec = - 62135596800, nsec = 0\<rparr>"

text \<open>The wire encoding of an event timestamp (\<^verbatim>\<open>ts.UnixNano()/1000000\<close>) and its decoding
  (\<^verbatim>\<open>time.Unix(ms/1000, (ms%1000)*1000000)\<close>), as written in the event operations and
  in the iterator's accessors.\<close>

definition encode_ms :: "Time \<Rightarrow> int" where
  "encode_ms t = UnixNano t sdiv 1000000"

definition decode_ms :: "int \<Rightarrow> Time" where
  "decode_ms ms = (let secs = ms sdiv 1000; nsecs = (ms smod 1000) * 1000000 in Unix secs nsecs)"

subsection \<open>The error types\<close>

datatype error =
    AlreadyExistsError string
  | NotMostRecentError string
  | NotFoundError string
  | PreconditionFailedError string
  | RateLimitedError string
  | UnknownError string int string
    \<comment> \<open>\<^verbatim>\<open>Status\<close>, \<^verbatim>\<open>StatusCode\<close>, \<^verbatim>\<open>Message\<close>\<close>
  | GoError string
    \<comment> \<open>an error made by \<^verbatim>\<open>errors.New\<close>, \<^verbatim>\<open>fmt.Errorf\<close> or the standard library, with its text\<close>

fun Error_text :: "error \<Rightarrow> string" where
  "Error_text (AlreadyExistsError a) = ''An item with the key '' @ a @ '' already exists.''"
| "Error_text (NotMostRecentError a) = a @ '' was not the most recent ref.''"
| "Error_text (NotFoundError n) = n"
| "Error_text (PreconditionFailedError p) = p"
| "Error_text (RateLimitedError p) = p"
| "Error_text (UnknownError st code msg) = st @ '' ('' @ Itoa code @ ''): '' @ msg"
| "Error_text (GoError s) = s"

subsection \<open>HTTP requests, responses and the world\<close>

record request =
  Method :: string
  URL :: string
  BasicAuth :: "string \<times> string"
  ReqHeader :: "(string \<times> string) list"
  ReqBody :: "string option"

text \<open>
  A response as the client holds it after \<^verbatim>\<open>Do\<close>: \<open>Body\<close> is the reader's state, the bytes
  of the body that have not been read yet.
\<close>

record response =
  Status :: string
  StatusCode :: int
  Header :: "string \<rightharpoonup> string list"
  Body :: string

text \<open>\<^verbatim>\<open>resp.Header.Get(key)\<close>: the first value stored under the key, \<^verbatim>\<open>""\<close> when there is none.\<close>

definition Header_Get :: "(string \<rightharpoonup> string list) \<Rightarrow> string \<Rightarrow> string" where
  "Header_Get h k = (case h k of None \<Rightarrow> [] | Some [] \<Rightarrow> [] | Some (v # _) \<Rightarrow> v)"

text \<open>
  The world: the requests handed to the HTTP client so far, in order, and for every response
  body closed so far the bytes that were still unread when \<^verbatim>\<open>Close\<close> was called.
\<close>

record world =
  sent :: "request list"
  leftover :: "string list"

definition Close :: "response \<Rightarrow> world \<Rightarrow> world" where
  "Close resp w = w\<lparr>leftover := leftover w @ [Body resp]\<rparr>"

text \<open>\<^verbatim>\<open>io.Copy(ioutil.Discard, resp.Body)\<close>: reads the body to its end.\<close>

definition io_Copy_Discard :: "response \<Rightarrow> response" where
  "io_Copy_Discard resp = resp\<lparr>Body := []\<rparr>"

text \<open>
  What the package takes from the Go standard library and from its caller, as parameters.
  An error of the standard library is given by its text (the left summand) and becomes a
  \<open>GoError\<close>: it is never one of the error types of this package.
  \<^item> \<open>json_Marshal\<close>, \<open>json_Unmarshal\<close>: \<^verbatim>\<open>encoding/json\<close> on the caller's values (of type \<open>'v\<close>)
    and destinations (of type \<open>'d\<close>); of \<open>Unmarshal\<close> only the error is kept;
  \<^item> \<open>http_NewRequest\<close>: the error of \<^verbatim>\<open>http.NewRequest(method, url, body)\<close>, if any;
  \<^item> \<open>url_Encode\<close>: \<^verbatim>\<open>url.Values.Encode\<close> on the pairs added to the query;
  \<^item> \<open>decode_message\<close>: \<^verbatim>\<open>json.NewDecoder(body).Decode(&UnknownError{})\<close>, giving the decoding error
    or the \<^verbatim>\<open>message\<close> field found (if any), and the bytes of the body left unread;
  \<^item> \<open>decode_RawMessage\<close>, \<open>decode_jsonList\<close>, \<open>decode_jsonEvent\<close>: the decoder that
    \<open>jsonReply\<close> builds for the value of \<^verbatim>\<open>Content-Encoding\<close> (first argument) over the body
    (second argument), run once: the error of \<^verbatim>\<open>gzip.NewReader\<close> or of \<^verbatim>\<open>Decode\<close>, or the decoded
    value, and the bytes of the body left unread.
\<close>

record jsonPath =
  Path_Collection :: string
  Path_Key :: string
  Path_Ordinal :: int
  Path_Ref :: string
  Path_Timestamp :: int
  Path_Tombstone :: bool
  Path_Type :: string

text \<open>A \<^verbatim>\<open>float32\<close> is only copied by this package: it is kept as its bit pattern, a number.\<close>

type_synonym float32 = nat

record jsonListItem =
  LI_Distance :: float32
  LI_Ordinal :: int
  LI_Path :: jsonPath
  LI_RefTime :: int
  LI_Score :: float32
  LI_Timestamp :: int
  LI_Value :: string

text \<open>\<open>Results\<close> is a slice of pointers: an entry can be \<^verbatim>\<open>nil\<close>.\<close>

record jsonList =
  Count :: int
  TotalCount :: int
  Next_link :: string
  Prev_link :: string
  Results :: "jsonListItem option list"

record jsonEvent =
  JE_Ordinal :: int
  JE_Path :: jsonPath
  JE_Timestamp :: int
  JE_Value :: string

record ('v, 'd) golib =
  json_Marshal :: "'v \<Rightarrow> string + string"
  json_Unmarshal :: "string \<Rightarrow> 'd \<Rightarrow> string option"
  http_NewRequest :: "string \<Rightarrow> string \<Rightarrow> string option \<Rightarrow> string option"
  url_Encode :: "(string \<times> string) list \<Rightarrow> string"
  decode_message :: "string \<Rightarrow> (string + string option) \<times> string"
  decode_RawMessage :: "string \<Rightarrow> string \<Rightarrow> (string + string) \<times> string"
  decode_jsonList :: "string \<Rightarrow> string \<Rightarrow> (string + jsonList) \<times> string"
  decode_jsonEvent :: "string \<Rightarrow> string \<Rightarrow> (string + jsonEvent) \<times> string"

subsection \<open>The error classifier newError\<close>

text \<open>
  The classifier returns the error and leaves the response's body reader where its own
  reading stopped: untouched for 404, 412 and 419, after the decoder's reads otherwise.
\<close>

definition newError :: "('v, 'd) golib \<Rightarrow> response \<Rightarrow> error \<times> response" where
  "newError L resp =
     (if StatusCode resp = 404 then (NotFoundError ''404: Not found.'', resp)
      else if StatusCode resp = 412 then (PreconditionFailedError ''412: Precondition failed.'', resp)
      else if StatusCode resp = 419 then (RateLimitedError ''Request rate limited.'', resp)
      else (case decode_message L (Body resp) of
              (Inl err, rest) \<Rightarrow>
                (UnknownError (Status resp) (StatusCode resp) err, resp\<lparr>Body := rest\<rparr>)
            | (Inr None, rest) \<Rightarrow>
                (UnknownError (Status resp) (StatusCode resp) [], resp\<lparr>Body := rest\<rparr>)
            | (Inr (Some m), rest) \<Rightarrow>
                (UnknownError (Status resp) (StatusCode resp) m, resp\<lparr>Body := rest\<rparr>)))"

subsection \<open>The client: doRequest, emptyReply, jsonReply\<close>

definition DefaultAPIHost :: string where
  "DefaultAPIHost = ''api.cl1.orchestrate.io''"

text \<open>\<^verbatim>\<open>runtime.Version()\<close> is fixed when the program is built; its value is used nowhere below.\<close>

definition runtime_Version :: string where
  "runtime_Version = ''go1.3''"

definition userAgent :: string where
  "userAgent = ''gorc2/1 ('' @ runtime_Version @ '')''"

definition userAgentDeprecated :: string where
  "userAgentDeprecated = ''gorc2/1 ('' @ runtime_Version @ '') [deprecated]''"

text \<open>
  \<open>HTTPClient\<close> is what \<^verbatim>\<open>client.Do(req)\<close> answers (with the client of the field, or the one
  built on \<^verbatim>\<open>DefaultTransport\<close> when the field is \<^verbatim>\<open>nil\<close>): an error or a response, which may
  depend on the requests sent before.
\<close>

record Client =
  APIHost :: string
  HTTPClient :: "request list \<Rightarrow> request \<Rightarrow> string + response"
  authToken :: string
  deprecated :: int

definition doRequest ::
  "('v, 'd) golib \<Rightarrow> Client \<Rightarrow> string \<Rightarrow> string \<Rightarrow> (string \<times> string) list \<Rightarrow> string option
     \<Rightarrow> world \<Rightarrow> (error + response) \<times> world" where
  "doRequest L c method trailing headers body w =
     (let host = (if APIHost c = [] then DefaultAPIHost else APIHost c);
          url = ''http://'' @ host @ ''/v0/'' @ trailing
      in case http_NewRequest L method url body of
           Some err \<Rightarrow> (Inl (GoError err), w)
         | None \<Rightarrow>
             (let req = \<lparr>Method = method, URL = url, BasicAuth = (authToken c, []),
                         ReqHeader = headers
                           @ [(''User-Agent'',
                               if deprecated c = 0 then userAgent else userAgentDeprecated)]
                           @ (if body \<noteq> None then [(''Content-Type'', ''application/json'')] else []),
                         ReqBody = body\<rparr>
              in (case HTTPClient c (sent w) req of
                    Inl err \<Rightarrow> Inl (GoError err)
                  | Inr resp \<Rightarrow> Inr resp,
                  w\<lparr>sent := sent w @ [req]\<rparr>)))"

text \<open>
  \<open>emptyReply\<close> and \<open>jsonReply\<close> have two shapes of return only, \<^verbatim>\<open>return nil, err\<close> and
  \<^verbatim>\<open>return resp, nil\<close>: their result is a sum. The deferred \<^verbatim>\<open>resp.Body.Close()\<close> runs on
  every return that follows the request.
\<close>

definition emptyReply ::
  "('v, 'd) golib \<Rightarrow> Client \<Rightarrow> string \<Rightarrow> string \<Rightarrow> (string \<times> string) list \<Rightarrow> string option
     \<Rightarrow> int \<Rightarrow> world \<Rightarrow> (error + response) \<times> world" where
  "emptyReply L c method path headers body status w =
     (case doRequest L c method path headers body w of
        (Inl err, w1) \<Rightarrow> (Inl err, w1)
      | (Inr resp, w1) \<Rightarrow>
          if StatusCode resp \<noteq> status then
            (case newError L resp of (e, resp1) \<Rightarrow> (Inl e, Close resp1 w1))
          else
            (let resp1 = io_Copy_Discard resp in (Inr resp1, Close resp1 w1)))"

text \<open>
  \<open>jsonReply\<close> decodes into the destination it is given; the model returns the decoded value
  beside the response. \<open>dec\<close> is the decoder of the destination's type.
\<close>

definition jsonReply ::
  "('v, 'd) golib \<Rightarrow> Client \<Rightarrow> (string \<Rightarrow> string \<Rightarrow> (string + 'a) \<times> string) \<Rightarrow> string \<Rightarrow> string
     \<Rightarrow> string option \<Rightarrow> int \<Rightarrow> world \<Rightarrow> (error + response \<times> 'a) \<times> world" where
  "jsonReply L c dec method path body status w =
     (let headers = [(''Accept-Encoding'', ''gzip; deflate'')]
      in case doRequest L c method path headers body w of
           (Inl err, w1) \<Rightarrow> (Inl err, w1)
         | (Inr resp, w1) \<Rightarrow>
             if StatusCode resp \<noteq> status then
               (case newError L resp of (e, resp1) \<Rightarrow> (Inl e, Close resp1 w1))
             else
               (case dec (Header_Get (Header resp) ''Content-Encoding'') (Body resp) of
                  (Inl err, rest) \<Rightarrow> (Inl (GoError err), Close (resp\<lparr>Body := rest\<rparr>) w1)
                | (Inr v, rest) \<Rightarrow>
                    (Inr (resp\<lparr>Body := rest\<rparr>, v), Close (resp\<lparr>Body := rest\<rparr>) w1)))"

subsection \<open>Items and the key-value operations\<close>

record Collection =
  Name :: string
  client :: Client

record Item =
  Collection :: Collection
  Distance :: float32
  Key :: string
  Ref :: string
  Score :: float32
  Tombstone :: bool
  Updated :: Time
  Value :: string

record Event =
  Ev_Collection :: Collection
  Ev_Key :: string
  Ev_Ordinal :: int
  Ev_Ref :: string
  Ev_Timestamp :: Time
  Ev_Type :: string
  Ev_Value :: string


definition Event_Unmarshal :: "('v, 'd) golib \<Rightarrow> Event \<Rightarrow> 'd \<Rightarrow> error option" where
  "Event_Unmarshal L e v = map_option GoError (json_Unmarshal L (Ev_Value e) v)"

text \<open>The composite literal \<^verbatim>\<open>&Item{Collection: c, Key: key}\<close>: the other fields are zero.\<close>

definition new_Item :: "Collection \<Rightarrow> string \<Rightarrow> Item" where
  "new_Item c key =
     \<lparr>Collection = c, Distance = 0, Key = key, Ref = [], Score = 0, Tombstone = False,
      Updated = zero_Time, Value = []\<rparr>"

definition innerPut ::
  "('v, 'd) golib \<Rightarrow> Collection \<Rightarrow> string \<Rightarrow> (string \<times> string) list \<Rightarrow> 'v \<Rightarrow> world
     \<Rightarrow> (Item option \<times> error option) \<times> world" where
  "innerPut L c key headers val w =
     (let item = new_Item c key
      in case json_Marshal L val of
           Inl err \<Rightarrow> ((None, Some (GoError err)), w)
         | Inr rawMsg \<Rightarrow>
             (let item = item\<lparr>Value := rawMsg\<rparr>;
                  path = Name c @ ''/'' @ key
              in case emptyReply L (client c) ''PUT'' path headers (Some (Value item)) 201 w of
                   (Inl err, w1) \<Rightarrow> ((None, Some err), w1)
                 | (Inr resp, w1) \<Rightarrow>
                     (let loc = Header_Get (Header resp) ''Location'';
                          i = LastIndex loc CHR ''/''
                      in if i = - 1 then ((None, Some (GoError ''Missing Location header.'')), w1)
                         else ((Some (item\<lparr>Ref := slice_from loc (i + 1)\<rparr>), None), w1))))"

definition Create ::
  "('v, 'd) golib \<Rightarrow> Collection \<Rightarrow> string \<Rightarrow> 'v \<Rightarrow> world
     \<Rightarrow> (Item option \<times> error option) \<times> world" where
  "Create L c key val w =
     (let headers = [(''If-None-Match'', ''\"*\"'')]
      in case innerPut L c key headers val w of
           ((item, Some (PreconditionFailedError _)), w1) \<Rightarrow> ((item, Some (AlreadyExistsError key)), w1)
         | r \<Rightarrow> r)"

definition Update ::
  "('v, 'd) golib \<Rightarrow> Collection \<Rightarrow> string \<Rightarrow> 'v \<Rightarrow> world
     \<Rightarrow> (Item option \<times> error option) \<times> world" where
  "Update L c key val w = innerPut L c key [] val w"

definition Delete :: "('v, 'd) golib \<Rightarrow> Collection \<Rightarrow> string \<Rightarrow> world \<Rightarrow> error option \<times> world" where
  "Delete L c key w =
     (let path = Name c @ ''/'' @ key
      in case emptyReply L (client c) ''DELETE'' path [] None 204 w of
           (Inl err, w1) \<Rightarrow> (Some err, w1)
         | (Inr _, w1) \<Rightarrow> (None, w1))"

definition Purge :: "('v, 'd) golib \<Rightarrow> Collection \<Rightarrow> string \<Rightarrow> world \<Rightarrow> error option \<times> world" where
  "Purge L c key w =
     (let path = Name c @ ''/'' @ key @ ''?purge=true''
      in case emptyReply L (client c) ''DELETE'' path [] None 204 w of
           (Inl err, w1) \<Rightarrow> (Some err, w1)
         | (Inr _, w1) \<Rightarrow> (None, w1))"




text \<open>\<^verbatim>\<open>Item.Delete\<close> and \<^verbatim>\<open>Item.Update\<close>: the conditional operations.\<close>

definition Item_Delete :: "('v, 'd) golib \<Rightarrow> Item \<Rightarrow> world \<Rightarrow> error option \<times> world" where
  "Item_Delete L i w =
     (let headers = [(''If-Match'', ''\"'' @ Ref i @ ''\"'')];
          path = Name (Collection i) @ ''/'' @ Key i
      in case emptyReply L (client (Collection i)) ''DELETE'' path headers None 204 w of
           (Inl (PreconditionFailedError _), w1) \<Rightarrow> (Some (NotMostRecentError (Ref i)), w1)
         | (Inl err, w1) \<Rightarrow> (Some err, w1)
         | (Inr _, w1) \<Rightarrow> (None, w1))"

definition Item_Update ::
  "('v, 'd) golib \<Rightarrow> Item \<Rightarrow> 'v \<Rightarrow> world \<Rightarrow> (Item option \<times> error option) \<times> world" where
  "Item_Update L i val w =
     (let headers = [(''If-Match'', ''\"'' @ Ref i @ ''\"'')]
      in case innerPut L (Collection i) (Key i) headers val w of
           ((item, Some (PreconditionFailedError _)), w1) \<Rightarrow> ((item, Some (NotMostRecentError (Key i))), w1)
         | r \<Rightarrow> r)"

subsection \<open>The event operations\<close>

text \<open>The composite literal \<^verbatim>\<open>&Event{Collection: c, Key: key, Type: typ}\<close>.\<close>

definition new_Event :: "Collection \<Rightarrow> string \<Rightarrow> string \<Rightarrow> Event" where
  "new_Event c key typ =
     \<lparr>Ev_Collection = c, Ev_Key = key, Ev_Ordinal = 0, Ev_Ref = [], Ev_Timestamp = zero_Time,
      Ev_Type = typ, Ev_Value = []\<rparr>"

text \<open>
  The two header checks that \<open>innerAddEvent\<close> and \<open>innerUpdateEvent\<close> share word for word:
  the \<^verbatim>\<open>Location\<close> header gives the timestamp and the ordinal, the \<^verbatim>\<open>Etag\<close> header the ref.
\<close>

definition event_from_headers :: "response \<Rightarrow> Event \<Rightarrow> Event option \<times> error option" where
  "event_from_headers resp event =
     (let location = Header_Get (Header resp) ''Location''
      in if location = [] then (None, Some (GoError ''Missing Location header.''))
         else (let parts = Split location CHR ''/''
               in if length parts \<noteq> 8 then (None, Some (GoError ''Malformed Location header.''))
                  else (case ParseInt (parts ! 6) of
                          Inl _ \<Rightarrow> (None, Some (GoError ''Malformed Timestamp in the Location header.''))
                        | Inr ts \<Rightarrow>
                           (case ParseInt (parts ! 7) of
                              Inl _ \<Rightarrow>
                                (None, Some (GoError ''Malformed Ordinal in the Location header.''))
                            | Inr ord \<Rightarrow>
                               (let event = event\<lparr>Ev_Timestamp := decode_ms ts, Ev_Ordinal := ord\<rparr>;
                                    etag = Header_Get (Header resp) ''Etag''
                                in if etag = [] then (None, Some (GoError ''Missing ETag header.''))
                                   else (let parts = Split etag CHR 0x22
                                         in if length parts \<noteq> 3
                                            then (None, Some (GoError ''Malformed ETag header.''))
                                            else (Some (event\<lparr>Ev_Ref := parts ! 1\<rparr>), None)))))))"

definition innerAddEvent ::
  "('v, 'd) golib \<Rightarrow> Collection \<Rightarrow> string \<Rightarrow> string \<Rightarrow> Time option \<Rightarrow> 'v \<Rightarrow> world
     \<Rightarrow> (Event option \<times> error option) \<times> world" where
  "innerAddEvent L c key typ ts val w =
     (let event = new_Event c key typ
      in case json_Marshal L val of
           Inl err \<Rightarrow> ((None, Some (GoError err)), w)
         | Inr rawMsg \<Rightarrow>
             (let event = event\<lparr>Ev_Value := rawMsg\<rparr>;
                  headers = [(''Content-Type'', ''application/json'')];
                  path = (case ts of
                            Some t \<Rightarrow> Name c @ ''/'' @ key @ ''/events/'' @ typ @ ''/''
                                        @ Itoa (encode_ms t)
                          | None \<Rightarrow> Name c @ ''/'' @ key @ ''/events/'' @ typ)
              in case emptyReply L (client c) ''POST'' path headers (Some (Ev_Value event)) 201 w of
                   (Inl err, w1) \<Rightarrow> ((None, Some err), w1)
                 | (Inr resp, w1) \<Rightarrow> (event_from_headers resp event, w1)))"

definition AddEvent ::
  "('v, 'd) golib \<Rightarrow> Collection \<Rightarrow> string \<Rightarrow> string \<Rightarrow> 'v \<Rightarrow> world
     \<Rightarrow> (Event option \<times> error option) \<times> world" where
  "AddEvent L c key typ val w = innerAddEvent L c key typ None val w"

definition AddEventWithTimestamp ::
  "('v, 'd) golib \<Rightarrow> Collection \<Rightarrow> string \<Rightarrow> string \<Rightarrow> Time \<Rightarrow> 'v \<Rightarrow> world
     \<Rightarrow> (Event option \<times> error option) \<times> world" where
  "AddEventWithTimestamp L c key typ ts val w = innerAddEvent L c key typ (Some ts) val w"

definition innerUpdateEvent ::
  "('v, 'd) golib \<Rightarrow> Collection \<Rightarrow> string \<Rightarrow> string \<Rightarrow> Time \<Rightarrow> int \<Rightarrow> 'v
     \<Rightarrow> (string \<times> string) list \<Rightarrow> world \<Rightarrow> (Event option \<times> error option) \<times> world" where
  "innerUpdateEvent L c key typ ts ordinal val headers w =
     (let event = (new_Event c key typ)\<lparr>Ev_Ordinal := ordinal, Ev_Timestamp := ts\<rparr>
      in case json_Marshal L val of
           Inl err \<Rightarrow> ((None, Some (GoError err)), w)
         | Inr rawMsg \<Rightarrow>
             (let event = event\<lparr>Ev_Value := rawMsg\<rparr>;
                  path = Name c @ ''/'' @ key @ ''/events/'' @ typ @ ''/'' @ Itoa (encode_ms ts)
                           @ ''/'' @ Itoa ordinal
              in case emptyReply L (client c) ''PUT'' path headers (Some (Ev_Value event)) 204 w of
                   (Inl err, w1) \<Rightarrow> ((None, Some err), w1)
                 | (Inr resp, w1) \<Rightarrow> (event_from_headers resp event, w1)))"

definition UpdateEvent ::
  "('v, 'd) golib \<Rightarrow> Collection \<Rightarrow> string \<Rightarrow> string \<Rightarrow> Time \<Rightarrow> int \<Rightarrow> 'v \<Rightarrow> world
     \<Rightarrow> (Event option \<times> error option) \<times> world" where
  "UpdateEvent L c key typ ts ordinal val w =
     (let headers = [(''Content-Type'', ''application/json'')]
      in innerUpdateEvent L c key typ ts ordinal val headers w)"

text \<open>\<^verbatim>\<open>Collection.GetEvent\<close>: the timestamp of the reply is decoded from milliseconds.\<close>

definition GetEvent ::
  "('v, 'd) golib \<Rightarrow> Collection \<Rightarrow> string \<Rightarrow> string \<Rightarrow> Time \<Rightarrow> int \<Rightarrow> 'd option \<Rightarrow> world
     \<Rightarrow> (Event option \<times> error option) \<times> world" where
  "GetEvent L c key typ ts ordinal val w =
     (let event = (new_Event c key typ)\<lparr>Ev_Ordinal := ordinal, Ev_Timestamp := ts\<rparr>;
          path = Name c @ ''/'' @ key @ ''/events/'' @ typ @ ''/'' @ Itoa (encode_ms ts)
                   @ ''/'' @ Itoa ordinal
      in case jsonReply L (client c) (decode_jsonEvent L) ''GET'' path None 200 w of
           (Inl err, w1) \<Rightarrow> ((None, Some err), w1)
         | (Inr (resp, responseData), w1) \<Rightarrow>
             (let event = event\<lparr>Ev_Value := JE_Value responseData,
                                 Ev_Ref := Path_Ref (JE_Path responseData),
                                 Ev_Timestamp := decode_ms (JE_Timestamp responseData),
                                 Ev_Ordinal := JE_Ordinal responseData\<rparr>
              in case val of
                   Some v \<Rightarrow> ((Some event, Event_Unmarshal L event v), w1)
                 | None \<Rightarrow> ((Some event, None), w1)))"

subsection \<open>The iterator\<close>

record Iterator =
  Error :: "error option"
  it_client :: Client
  it_done :: bool
  index :: int
  iteratingEvents :: bool
  iteratingItems :: bool
  it_next :: string
  results :: "jsonListItem option list"

text \<open>
  A Go panic: the slice access \<^verbatim>\<open>i.results[i.index]\<close> out of range, or the use of a \<^verbatim>\<open>nil\<close>
  entry of the slice.
\<close>

datatype panic = IndexOutOfRange | NilDereference

definition Iterator_Get ::
  "('v, 'd) golib \<Rightarrow> Iterator \<Rightarrow> 'd option \<Rightarrow> panic + (Item option \<times> error option)" where
  "Iterator_Get L i val =
     (if iteratingItems i \<noteq> True then Inr (None, Some (GoError ''Not an Item Iterator.''))
      else if index i < 0 \<or> int (length (results i)) \<le> index i then Inl IndexOutOfRange
      else (case results i ! nat (index i) of
              None \<Rightarrow> Inl NilDereference
            | Some r \<Rightarrow>
               (let item = \<lparr>Collection = \<lparr>Name = Path_Collection (LI_Path r), client = it_client i\<rparr>,
                              Distance = LI_Distance r,
                              Key = Path_Key (LI_Path r),
                              Ref = Path_Ref (LI_Path r),
                              Score = LI_Score r,
                              Tombstone = Path_Tombstone (LI_Path r),
                              Updated = decode_ms (LI_RefTime r),
                              Value = LI_Value r\<rparr>
                in case val of
                     Some v \<Rightarrow> Inr (Some item, map_option GoError (json_Unmarshal L (LI_Value r) v))
                   | None \<Rightarrow> Inr (Some item, None))))"

definition Iterator_GetEvent ::
  "('v, 'd) golib \<Rightarrow> Iterator \<Rightarrow> 'd option \<Rightarrow> panic + (Event option \<times> error option)" where
  "Iterator_GetEvent L i val =
     (if iteratingEvents i \<noteq> True then Inr (None, Some (GoError ''Not an Event Iterator.''))
      else if index i < 0 \<or> int (length (results i)) \<le> index i then Inl IndexOutOfRange
      else (case results i ! nat (index i) of
              None \<Rightarrow> Inl NilDereference
            | Some r \<Rightarrow>
               (let event = \<lparr>Ev_Collection = \<lparr>Name = Path_Collection (LI_Path r),
                                                client = it_client i\<rparr>,
                               Ev_Key = Path_Key (LI_Path r),
                               Ev_Ordinal = Path_Ordinal (LI_Path r),
                               Ev_Ref = Path_Ref (LI_Path r),
                               Ev_Timestamp = decode_ms (LI_Timestamp r),
                               Ev_Type = Path_Type (LI_Path r),
                               Ev_Value = LI_Value r\<rparr>
                in case val of
                     Some v \<Rightarrow> Inr (Some event, map_option GoError (json_Unmarshal L (LI_Value r) v))
                   | None \<Rightarrow> Inr (Some event, None))))"

text \<open>\<^verbatim>\<open>Iterator.Next\<close>: the result, the iterator after the call, the world after the call.\<close>

definition Next :: "('v, 'd) golib \<Rightarrow> Iterator \<Rightarrow> world \<Rightarrow> bool \<times> Iterator \<times> world" where
  "Next L i w =
     (if it_done i then (False, i, w)
      else if Error i \<noteq> None then (False, i, w)
      else if index i < int (length (results i)) - 1 then (True, i\<lparr>index := index i + 1\<rparr>, w)
      else if it_next i = [] then (False, i\<lparr>it_done := True\<rparr>, w)
      else (case jsonReply L (it_client i) (decode_jsonList L) ''GET'' (it_next i) None 200 w of
              (Inl err, w1) \<Rightarrow> (False, i\<lparr>Error := Some err\<rparr>, w1)
            | (Inr (resp, res), w1) \<Rightarrow>
               (let i1 = i\<lparr>it_next := TrimPrefix (Next_link res) ''/v0/'', results := Results res\<rparr>;
                    i2 = (if length (Results res) = 0 then i1\<lparr>it_done := True\<rparr>
                          else i1\<lparr>index := 0\<rparr>)
                in (\<not> it_done i2, i2, w1))))"

definition NextWithError ::
  "('v, 'd) golib \<Rightarrow> Iterator \<Rightarrow> world \<Rightarrow> (bool \<times> error option) \<times> Iterator \<times> world" where
  "NextWithError L i w = (case Next L i w of (b, i1, w1) \<Rightarrow> ((b, Error i1), i1, w1))"

text \<open>
  \<open>n\<close> calls of \<open>Next\<close> in a row on the same iterator: the results of the calls in order,
  the iterator and the world after the last one.
\<close>

fun Next_calls ::
  "('v, 'd) golib \<Rightarrow> nat \<Rightarrow> Iterator \<Rightarrow> world \<Rightarrow> bool list \<times> Iterator \<times> world" where
  "Next_calls L 0 i w = ([], i, w)"
| "Next_calls L (Suc n) i w =
     (case Next L i w of (b, i1, w1) \<Rightarrow>
        (case Next_calls L n i1 w1 of (bs, i2, w2) \<Rightarrow> (b # bs, i2, w2)))"

subsection \<open>The listing operations\<close>

text \<open>The composite literal \<^verbatim>\<open>&Iterator{client: .., iteratingItems: .., next: path}\<close>.\<close>

definition new_Iterator :: "Client \<Rightarrow> bool \<Rightarrow> bool \<Rightarrow> string \<Rightarrow> Iterator" where
  "new_Iterator c events items path =
     \<lparr>Error = None, it_client = c, it_done = False, index = 0, iteratingEvents = events,
      iteratingItems = items, it_next = path, results = []\<rparr>"

record HistoryQuery =
  HQ_Limit :: int
  HQ_Offset :: int
  HQ_Values :: bool

definition History ::
  "('v, 'd) golib \<Rightarrow> Collection \<Rightarrow> string \<Rightarrow> HistoryQuery option \<Rightarrow> Iterator" where
  "History L c key opts =
     (let path = (case opts of
                    Some q \<Rightarrow>
                      (let queryVariables =
                             (if HQ_Limit q \<noteq> 0 then [(''limit'', Itoa (HQ_Limit q))] else [])
                           @ (if HQ_Offset q \<noteq> 0 then [(''offset'', Itoa (HQ_Offset q))] else [])
                           @ (if HQ_Values q then [(''values'', ''true'')] else [])
                       in Name c @ ''/'' @ key @ ''/refs?'' @ url_Encode L queryVariables)
                  | None \<Rightarrow> Name c @ ''/'' @ key @ ''/refs?'')
      in new_Iterator (client c) False True path)"

record ListQuery =
  LQ_Limit :: int
  LQ_StartKey :: string
  LQ_AfterKey :: string
  LQ_BeforeKey :: string
  LQ_EndKey :: string

definition List :: "('v, 'd) golib \<Rightarrow> Collection \<Rightarrow> ListQuery option \<Rightarrow> Iterator" where
  "List L c query =
     (let path = (case query of
                    Some q \<Rightarrow>
                      (let queryVariables =
                             (if LQ_Limit q \<noteq> 0 then [(''limit'', Itoa (LQ_Limit q))] else [])
                           @ (if LQ_AfterKey q \<noteq> [] then [(''afterKey'', LQ_AfterKey q)] else [])
                           @ (if LQ_BeforeKey q \<noteq> [] then [(''beforeKey'', LQ_BeforeKey q)] else [])
                           @ (if LQ_EndKey q \<noteq> [] then [(''endKey'', LQ_EndKey q)] else [])
                           @ (if LQ_StartKey q \<noteq> [] then [(''startKey'', LQ_StartKey q)] else [])
                       in Name c @ ''?'' @ url_Encode L queryVariables)
                  | None \<Rightarrow> Name c)
      in new_Iterator (client c) False True path)"

record SearchQuery =
  SQ_Limit :: int
  SQ_Offset :: int
  SQ_Sort :: string

definition Search ::
  "('v, 'd) golib \<Rightarrow> Collection \<Rightarrow> string \<Rightarrow> SearchQuery option \<Rightarrow> Iterator" where
  "Search L c query opts =
     (let queryVariables =
            [(''query'', query)]
          @ (case opts of
               Some q \<Rightarrow>
                   (if SQ_Limit q \<noteq> 0 then [(''limit'', Itoa (SQ_Limit q))] else [])
                 @ (if SQ_Offset q \<noteq> 0 then [(''offset'', Itoa (SQ_Offset q))] else [])
                 @ (if SQ_Sort q \<noteq> [] then [(''sort'', SQ_Sort q)] else [])
             | None \<Rightarrow> [])
      in new_Iterator (client c) False True (Name c @ ''?'' @ url_Encode L queryVariables))"

record ListEventsQuery =
  EQ_Limit :: int
  EQ_Start :: Time
  EQ_StartOrdinal :: int
  EQ_End :: Time
  EQ_EndOrdinal :: int
  EQ_After :: Time
  EQ_AfterOrdinal :: int
  EQ_Before :: Time
  EQ_BeforeOrdinal :: int

text \<open>One of the four boundary parameters of \<open>ListEvents\<close>, written four times in the source.\<close>

definition event_bound :: "string \<Rightarrow> Time \<Rightarrow> int \<Rightarrow> (string \<times> string) list" where
  "event_bound name t ordinal =
     (if t \<noteq> zero_Time then
        (if ordinal \<noteq> 0 then [(name, Itoa (encode_ms t) @ ''/'' @ Itoa ordinal)]
         else [(name, Itoa (encode_ms t))])
      else [])"

definition ListEvents ::
  "('v, 'd) golib \<Rightarrow> Collection \<Rightarrow> string \<Rightarrow> string \<Rightarrow> ListEventsQuery option \<Rightarrow> Iterator" where
  "ListEvents L c key typ opts =
     (let path = (case opts of
                    Some q \<Rightarrow>
                      (let query =
                             (if EQ_Limit q \<noteq> 0 then [(''limit'', Itoa (EQ_Limit q))] else [])
                           @ event_bound ''afterEvent'' (EQ_After q) (EQ_AfterOrdinal q)
                           @ event_bound ''beforeEvent'' (EQ_Before q) (EQ_BeforeOrdinal q)
                           @ event_bound ''endEvent'' (EQ_End q) (EQ_EndOrdinal q)
                           @ event_bound ''startEvent'' (EQ_Start q) (EQ_StartOrdinal q)
                       in Name c @ ''/'' @ key @ ''/events/'' @ typ @ ''?'' @ url_Encode L query)
                  | None \<Rightarrow> Name c @ ''/'' @ key @ ''/events/'' @ typ)
      in new_Iterator (client c) True False path)"

record GetLinksQuery =
  GQ_Limit :: int

definition GetLinks ::
  "Collection \<Rightarrow> string \<Rightarrow> GetLinksQuery option \<Rightarrow> string \<Rightarrow> string list \<Rightarrow> Iterator" where
  "GetLinks c key opts kind kinds =
     (let path = Name c @ ''/'' @ key @ ''/relations/'' @ kind;
          path = (if length kinds > 0 then path @ ''/'' @ Join kinds ''/'' else path);
          path = (case opts of
                    Some q \<Rightarrow> if GQ_Limit q \<noteq> 0 then path @ ''?limit='' @ Itoa (GQ_Limit q) else path
                  | None \<Rightarrow> path)
      in new_Iterator (client c) False True path)"

text \<open>The five listing operations as one call, for statements about all of them.\<close>

datatype listing =
    Call_List "ListQuery option"
  | Call_Search string "SearchQuery option"
  | Call_History string "HistoryQuery option"
  | Call_ListEvents string string "ListEventsQuery option"
  | Call_GetLinks string "GetLinksQuery option" string "string list"

fun run_listing :: "('v, 'd) golib \<Rightarrow> Collection \<Rightarrow> listing \<Rightarrow> Iterator" where
  "run_listing L c (Call_List q) = List L c q"
| "run_listing L c (Call_Search query opts) = Search L c query opts"
| "run_listing L c (Call_History key opts) = History L c key opts"
| "run_listing L c (Call_ListEvents key typ opts) = ListEvents L c key typ opts"
| "run_listing L c (Call_GetLinks key opts kind kinds) = GetLinks c key opts kind kinds"

subsection \<open>Test doubles\<close>

text \<open>
  A library and a client for concrete runs. The test library takes the caller's values as
  JSON text already; its list decoder reads a body of the form \<open>next;xxx\<close> as a page with the
  link \<open>next\<close> and one item for every byte after the semicolon. The test client answers every
  request by a function of the request.
\<close>

definition test_item :: jsonListItem where
  "test_item = \<lparr>LI_Distance = 0, LI_Ordinal = 0,
     LI_Path = \<lparr>Path_Collection = ''c'', Path_Key = ''k'', Path_Ordinal = 0, Path_Ref = ''r'',
                Path_Timestamp = 0, Path_Tombstone = False, Path_Type = []\<rparr>,
     LI_RefTime = 0, LI_Score = 0, LI_Timestamp = 0, LI_Value = ''{}''\<rparr>"

definition test_page :: "string \<Rightarrow> jsonList" where
  "test_page b =
     \<lparr>Count = 0, TotalCount = 0, Next_link = takeWhile (\<lambda>x. x \<noteq> CHR '';'') b, Prev_link = [],
      Results = map (\<lambda>_. Some test_item) (drop 1 (dropWhile (\<lambda>x. x \<noteq> CHR '';'') b))\<rparr>"

definition test_lib :: "(string, unit) golib" where
  "test_lib =
     \<lparr>json_Marshal = Inr, json_Unmarshal = (\<lambda>_ _. None), http_NewRequest = (\<lambda>_ _ _. None),
      url_Encode = (\<lambda>_. []), decode_message = (\<lambda>b. (Inr (Some b), [])),
      decode_RawMessage = (\<lambda>_ b. (Inr b, [])),
      decode_jsonList = (\<lambda>_ b. (Inr (test_page b), [])),
      decode_jsonEvent = (\<lambda>_ b. (Inl ''unexpected end of JSON input'', b))\<rparr>"

definition test_response :: "int \<Rightarrow> (string \<times> string) list \<Rightarrow> string \<Rightarrow> response" where
  "test_response code hs b =
     \<lparr>Status = ''HTTP/1.1'', StatusCode = code, Header = map_of (map (\<lambda>(k, v). (k, [v])) hs),
      Body = b\<rparr>"

definition test_client :: "(request \<Rightarrow> response) \<Rightarrow> Client" where
  "test_client srv =
     \<lparr>APIHost = ''h'', HTTPClient = (\<lambda>_ req. Inr (srv req)), authToken = ''t'', deprecated = 0\<rparr>"

definition test_collection :: "(request \<Rightarrow> response) \<Rightarrow> Collection" where
  "test_collection srv = \<lparr>Name = ''c'', client = test_client srv\<rparr>"

definition w0 :: world where
  "w0 = \<lparr>sent = [], leftover = []\<rparr>"

text \<open>
  A server of two pages: the listing of collection \<open>c\<close> has three items, two on the first
  page, which links to \<open>p2\<close>, and one on the second, which has no link. Any other path is
  answered by 404.
\<close>

definition two_pages :: "request \<Rightarrow> response" where
  "two_pages req =
     (if URL req = ''http://h/v0/c'' then test_response 200 [] ''/v0/p2;xx''
      else if URL req = ''http://h/v0/p2'' then test_response 200 [] '';x''
      else test_response 404 [] ''{}'')"

text \<open>A server with nothing to list: one empty page without a link.\<close>

definition no_items :: "request \<Rightarrow> response" where
  "no_items req = test_response 200 [] '';''"

subsection \<open>A server that answers a listing in pages\<close>

text \<open>
  \<open>serves_pages L c w u pages\<close>: in the world \<open>w\<close> the path \<open>u\<close> is not empty and a \<^verbatim>\<open>GET\<close> of it
  is answered by status 200 and a body that decodes to a list whose results are the first
  page; the link of the last page is empty once its prefix \<^verbatim>\<open>/v0/\<close> is removed, and the link
  of any other page leads, in the same way, to the pages that follow.
\<close>

fun serves_pages ::
  "('v, 'd) golib \<Rightarrow> Client \<Rightarrow> world \<Rightarrow> string \<Rightarrow> jsonListItem option list list \<Rightarrow> bool" where
  "serves_pages L c w u [] = False"
| "serves_pages L c w u (p # ps) =
     (u \<noteq> [] \<and>
      (case jsonReply L c (decode_jsonList L) ''GET'' u None 200 w of
         (Inl err, w1) \<Rightarrow> False
       | (Inr (resp, res), w1) \<Rightarrow>
           Results res = p \<and>
           (if ps = [] then TrimPrefix (Next_link res) ''/v0/'' = []
            else serves_pages L c w1 (TrimPrefix (Next_link res) ''/v0/'') ps)))"

text \<open>Servers that give the same answer to every request.\<close>

definition answers_412 :: "request \<Rightarrow> response" where
  "answers_412 req = test_response 412 [] ''{}''"

definition answers_404 :: "request \<Rightarrow> response" where
  "answers_404 req = test_response 404 [] ''not found''"

definition answers_204 :: "request \<Rightarrow> response" where
  "answers_204 req = test_response 204 [] ''ignored''"

definition test_item_at :: "(request \<Rightarrow> response) \<Rightarrow> Item" where
  "test_item_at srv = (new_Item (test_collection srv) ''k'')\<lparr>Ref := ''r1''\<rparr>"

subsection \<open>The format of the Location header\<close>

text \<open>
  The \<^verbatim>\<open>Location\<close> header of a key-value write as the interface describes it,
  \<^verbatim>\<open>.../<collection>/<key>/refs/<ref>\<close>: at least four segments, of which the last four are a
  collection, a key, the word \<^verbatim>\<open>refs\<close> and a ref, none of them empty. It is the format that a
  request is checked against below, not a function of the package.
\<close>

definition Location_names_ref :: "string \<Rightarrow> bool" where
  "Location_names_ref loc =
     (let parts = Split loc CHR ''/''; n = length parts
      in 4 \<le> n \<and> parts ! (n - 4) \<noteq> [] \<and> parts ! (n - 3) \<noteq> [] \<and> parts ! (n - 2) = ''refs''
         \<and> parts ! (n - 1) \<noteq> [])"

text \<open>Servers for the header checks.\<close>

definition answers_201_slash :: "request \<Rightarrow> response" where
  "answers_201_slash req = test_response 201 [(''Location'', ''/'')] []"

definition answers_201_bare :: "request \<Rightarrow> response" where
  "answers_201_bare req = test_response 201 [] []"


text \<open>
  The checks that \<open>event_from_headers\<close> makes, as one condition on the response: the
  \<^verbatim>\<open>Location\<close> header is missing, or does not split into exactly eight segments at its
  slashes, or its seventh or eighth segment is not a decimal int64, or the \<^verbatim>\<open>Etag\<close> header is
  missing or does not split into exactly three parts at its double quotes.
\<close>

definition event_headers_rejected :: "response \<Rightarrow> bool" where
  "event_headers_rejected resp =
     (let location = Header_Get (Header resp) ''Location'';
          etag = Header_Get (Header resp) ''Etag''
      in location = [] \<or> length (Split location CHR ''/'') \<noteq> 8
         \<or> isl (ParseInt (Split location CHR ''/'' ! 6))
         \<or> isl (ParseInt (Split location CHR ''/'' ! 7))
         \<or> etag = [] \<or> length (Split etag CHR 0x22) \<noteq> 3)"

definition answers_201_no_etag :: "request \<Rightarrow> response" where
  "answers_201_no_etag req =
     test_response 201 [(''Location'', ''/v0/c/k/events/t/1418419579000/3'')] []"

subsection \<open>Millisecond precision\<close>

text \<open>
  An instant cut to millisecond precision: the digits of the nanoseconds below a millisecond
  are dropped, which is what \<^verbatim>\<open>t.Truncate(time.Millisecond)\<close> gives.
\<close>

definition truncate_ms :: "Time \<Rightarrow> Time" where
  "truncate_ms t = t\<lparr>nsec := nsec t - nsec t mod 1000000\<rparr>"

section \<open>Properties\<close>

subsection \<open>Running the test doubles\<close>

lemma doRequest_test:
  "doRequest test_lib (test_client srv) m p h b w =
     (Inr (srv \<lparr>Method = m, URL = ''http://h/v0/'' @ p, BasicAuth = (''t'', []),
                ReqHeader = h @ [(''User-Agent'', userAgent)]
                  @ (if b \<noteq> None then [(''Content-Type'', ''application/json'')] else []),
                ReqBody = b\<rparr>),
      w\<lparr>sent := sent w @ [\<lparr>Method = m, URL = ''http://h/v0/'' @ p, BasicAuth = (''t'', []),
                ReqHeader = h @ [(''User-Agent'', userAgent)]
                  @ (if b \<noteq> None then [(''Content-Type'', ''application/json'')] else []),
                ReqBody = b\<rparr>]\<rparr>)"
  by (simp add: doRequest_def test_lib_def test_client_def Let_def)

subsection \<open>The error classifier\<close>

text \<open>
  C6. \<open>newError\<close> returns \<open>NotFoundError\<close> for status 404, \<open>PreconditionFailedError\<close> for 412,
  \<open>RateLimitedError\<close> for 419, and for every other status an \<open>UnknownError\<close> that carries the
  status line, the status code and the \<^verbatim>\<open>message\<close> field decoded from the body when there is
  one; \<open>emptyReply\<close> and \<open>jsonReply\<close> return exactly that error for a response whose status is
  not the expected one.
\<close>

theorem newError_taxonomy:
  "(StatusCode resp = 404 \<longrightarrow> fst (newError L resp) = NotFoundError ''404: Not found.'')
   \<and> (StatusCode resp = 412 \<longrightarrow>
        fst (newError L resp) = PreconditionFailedError ''412: Precondition failed.'')
   \<and> (StatusCode resp = 419 \<longrightarrow> fst (newError L resp) = RateLimitedError ''Request rate limited.'')
   \<and> (StatusCode resp \<notin> {404, 412, 419} \<longrightarrow>
        (\<exists>msg. fst (newError L resp) = UnknownError (Status resp) (StatusCode resp) msg
               \<and> (\<forall>m. fst (decode_message L (Body resp)) = Inr (Some m) \<longrightarrow> msg = m)))
   \<and> (fst (doRequest L c meth path headers body w) = Inr resp \<and> StatusCode resp \<noteq> status \<longrightarrow>
        fst (emptyReply L c meth path headers body status w) = Inl (fst (newError L resp)))
   \<and> (fst (doRequest L c meth path [(''Accept-Encoding'', ''gzip; deflate'')] body w) = Inr resp
        \<and> StatusCode resp \<noteq> status \<longrightarrow>
        fst (jsonReply L c dec meth path body status w) = Inl (fst (newError L resp)))"
  by (auto simp: newError_def emptyReply_def jsonReply_def
           split: prod.splits sum.splits option.splits)

theorem newError_taxonomy_witness:
  "StatusCode (test_response 500 [] ''boom'') \<notin> {404, 412, 419}
   \<and> fst (doRequest test_lib (test_client (\<lambda>_. test_response 500 [] ''boom'')) ''PUT'' ''c/k'' []
             None w0)
        = Inr (test_response 500 [] ''boom'')
   \<and> StatusCode (test_response 500 [] ''boom'') \<noteq> 201
   \<and> fst (decode_message test_lib (Body (test_response 500 [] ''boom''))) = Inr (Some ''boom'')
   \<and> fst (newError test_lib (test_response 500 [] ''boom'')) = UnknownError ''HTTP/1.1'' 500 ''boom''
   \<and> fst (emptyReply test_lib (test_client (\<lambda>_. test_response 500 [] ''boom'')) ''PUT'' ''c/k'' []
             None 201 w0)
       = Inl (UnknownError ''HTTP/1.1'' 500 ''boom'')"
  using newError_taxonomy [where resp = "test_response 500 [] ''boom''" and L = test_lib
           and c = "test_client (\<lambda>_. test_response 500 [] ''boom'')" and meth = "''PUT''"
           and path = "''c/k''" and headers = "[]" and body = None and w = w0 and status = 201
           and dec = "decode_jsonList test_lib"]
  by (simp add: doRequest_test) (simp add: test_response_def test_lib_def)

subsection \<open>The iterator: single calls\<close>

lemma Next_stopped: "it_done i \<or> Error i \<noteq> None \<Longrightarrow> Next L i w = (False, i, w)"
  by (auto simp: Next_def)

lemma Next_calls_stopped:
  "it_done i \<or> Error i \<noteq> None \<Longrightarrow> Next_calls L n i w = (replicate n False, i, w)"
  by (induction n) (simp_all add: Next_stopped)

text \<open>
  C3. Once an iterator is exhausted (\<open>done\<close>) or holds an error, every later call of \<open>Next\<close>
  returns false, sends no request and leaves the iterator as it is; the stored error stays.
\<close>

theorem Next_absorbing:
  "it_done i \<or> Error i \<noteq> None \<Longrightarrow>
     Next_calls L n i w = (replicate n False, i, w) \<and> Next L i w = (False, i, w)"
  by (simp add: Next_calls_stopped Next_stopped)

theorem Next_absorbing_witness:
  "Error ((new_Iterator (test_client no_items) False True ''c'')
            \<lparr>Error := Some (GoError ''EXPECTED'')\<rparr>) \<noteq> None
   \<and> Next_calls test_lib 3
        ((new_Iterator (test_client no_items) False True ''c'')
            \<lparr>Error := Some (GoError ''EXPECTED'')\<rparr>) w0
      = ([False, False, False],
         (new_Iterator (test_client no_items) False True ''c'')
            \<lparr>Error := Some (GoError ''EXPECTED'')\<rparr>, w0)"
  using Next_absorbing [where i = "(new_Iterator (test_client no_items) False True ''c'')
            \<lparr>Error := Some (GoError ''EXPECTED'')\<rparr>" and L = test_lib and n = 3 and w = w0]
  by (simp add: numeral_3_eq_3)

text \<open>The first three calls of \<open>Next\<close> on the listing of the two-page server.\<close>

lemma jsonReply_test_200:
  "StatusCode (srv \<lparr>Method = m, URL = ''http://h/v0/'' @ p, BasicAuth = (''t'', []),
                ReqHeader = [(''Accept-Encoding'', ''gzip; deflate''), (''User-Agent'', userAgent)],
                ReqBody = None\<rparr>) = 200 \<Longrightarrow>
   jsonReply test_lib (test_client srv) (decode_jsonList test_lib) m p None 200 w =
     (Inr ((srv \<lparr>Method = m, URL = ''http://h/v0/'' @ p, BasicAuth = (''t'', []),
                ReqHeader = [(''Accept-Encoding'', ''gzip; deflate''), (''User-Agent'', userAgent)],
                ReqBody = None\<rparr>)\<lparr>Body := []\<rparr>,
           test_page (Body (srv \<lparr>Method = m, URL = ''http://h/v0/'' @ p, BasicAuth = (''t'', []),
                ReqHeader = [(''Accept-Encoding'', ''gzip; deflate''), (''User-Agent'', userAgent)],
                ReqBody = None\<rparr>))),
      Close ((srv \<lparr>Method = m, URL = ''http://h/v0/'' @ p, BasicAuth = (''t'', []),
                ReqHeader = [(''Accept-Encoding'', ''gzip; deflate''), (''User-Agent'', userAgent)],
                ReqBody = None\<rparr>)\<lparr>Body := []\<rparr>)
        (w\<lparr>sent := sent w @ [\<lparr>Method = m, URL = ''http://h/v0/'' @ p, BasicAuth = (''t'', []),
                ReqHeader = [(''Accept-Encoding'', ''gzip; deflate''), (''User-Agent'', userAgent)],
                ReqBody = None\<rparr>]\<rparr>))"
  by (simp add: jsonReply_def doRequest_test) (simp add: test_lib_def)

lemma two_pages_first:
  "Next test_lib (List test_lib (test_collection two_pages) None) w0 =
     (True,
      (new_Iterator (test_client two_pages) False True ''p2'')
        \<lparr>results := [Some test_item, Some test_item]\<rparr>,
      \<lparr>sent = [\<lparr>Method = ''GET'', URL = ''http://h/v0/c'', BasicAuth = (''t'', []),
                ReqHeader = [(''Accept-Encoding'', ''gzip; deflate''), (''User-Agent'', userAgent)],
                ReqBody = None\<rparr>],
       leftover = [[]]\<rparr>)"
  by (simp add: Next_def List_def test_collection_def new_Iterator_def jsonReply_test_200
        two_pages_def test_response_def test_page_def Close_def w0_def TrimPrefix_def)

lemma two_pages_second:
  "Next test_lib ((new_Iterator (test_client two_pages) False True ''p2'')
        \<lparr>results := [Some test_item, Some test_item]\<rparr>) w =
     (True,
      (new_Iterator (test_client two_pages) False True ''p2'')
        \<lparr>index := 1, results := [Some test_item, Some test_item]\<rparr>, w)"
  by (simp add: Next_def new_Iterator_def)

lemma two_pages_third:
  "Next test_lib ((new_Iterator (test_client two_pages) False True ''p2'')
        \<lparr>index := 1, results := [Some test_item, Some test_item]\<rparr>) w =
     (True,
      (new_Iterator (test_client two_pages) False True [])\<lparr>results := [Some test_item]\<rparr>,
      Close ((two_pages \<lparr>Method = ''GET'', URL = ''http://h/v0/p2'', BasicAuth = (''t'', []),
                ReqHeader = [(''Accept-Encoding'', ''gzip; deflate''), (''User-Agent'', userAgent)],
                ReqBody = None\<rparr>)\<lparr>Body := []\<rparr>)
        (w\<lparr>sent := sent w @ [\<lparr>Method = ''GET'', URL = ''http://h/v0/p2'', BasicAuth = (''t'', []),
                ReqHeader = [(''Accept-Encoding'', ''gzip; deflate''), (''User-Agent'', userAgent)],
                ReqBody = None\<rparr>]\<rparr>))"
  by (simp add: Next_def new_Iterator_def jsonReply_test_200 two_pages_def test_response_def
        test_page_def TrimPrefix_def)

lemma two_pages_fourth:
  "Next test_lib ((new_Iterator (test_client two_pages) False True [])
        \<lparr>results := [Some test_item]\<rparr>) w =
     (False,
      (new_Iterator (test_client two_pages) False True [])
        \<lparr>it_done := True, results := [Some test_item]\<rparr>, w)"
  by (simp add: Next_def new_Iterator_def)

text \<open>
  C2, as the claim states it: with a page of \<open>P\<close> items and an index \<open>i < P\<close>, \<open>Next\<close> sends
  no request and changes the index only. It fails at the last item of a page, \<open>i = P - 1\<close>:
  on the two-page server the second item of the first page is current after two calls
  (index 1 of 2), and the third call sends the request for the second page and replaces the
  results and the link.
\<close>

theorem Next_in_page_counterexample:
  "index ((new_Iterator (test_client two_pages) False True ''p2'')
        \<lparr>index := 1, results := [Some test_item, Some test_item]\<rparr>)
     < int (length (results ((new_Iterator (test_client two_pages) False True ''p2'')
        \<lparr>index := 1, results := [Some test_item, Some test_item]\<rparr>)))
   \<and> Next_calls test_lib 2 (List test_lib (test_collection two_pages) None) w0
     = ([True, True],
        (new_Iterator (test_client two_pages) False True ''p2'')
          \<lparr>index := 1, results := [Some test_item, Some test_item]\<rparr>,
        \<lparr>sent = [\<lparr>Method = ''GET'', URL = ''http://h/v0/c'', BasicAuth = (''t'', []),
                ReqHeader = [(''Accept-Encoding'', ''gzip; deflate''), (''User-Agent'', userAgent)],
                ReqBody = None\<rparr>],
         leftover = [[]]\<rparr>)
   \<and> length (sent (snd (snd (Next test_lib
        ((new_Iterator (test_client two_pages) False True ''p2'')
          \<lparr>index := 1, results := [Some test_item, Some test_item]\<rparr>)
        \<lparr>sent = [\<lparr>Method = ''GET'', URL = ''http://h/v0/c'', BasicAuth = (''t'', []),
                ReqHeader = [(''Accept-Encoding'', ''gzip; deflate''), (''User-Agent'', userAgent)],
                ReqBody = None\<rparr>],
         leftover = [[]]\<rparr>)))) = 2
   \<and> results (fst (snd (Next test_lib
        ((new_Iterator (test_client two_pages) False True ''p2'')
          \<lparr>index := 1, results := [Some test_item, Some test_item]\<rparr>)
        \<lparr>sent = [\<lparr>Method = ''GET'', URL = ''http://h/v0/c'', BasicAuth = (''t'', []),
                ReqHeader = [(''Accept-Encoding'', ''gzip; deflate''), (''User-Agent'', userAgent)],
                ReqBody = None\<rparr>],
         leftover = [[]]\<rparr>))) = [Some test_item]
   \<and> it_next (fst (snd (Next test_lib
        ((new_Iterator (test_client two_pages) False True ''p2'')
          \<lparr>index := 1, results := [Some test_item, Some test_item]\<rparr>)
        \<lparr>sent = [\<lparr>Method = ''GET'', URL = ''http://h/v0/c'', BasicAuth = (''t'', []),
                ReqHeader = [(''Accept-Encoding'', ''gzip; deflate''), (''User-Agent'', userAgent)],
                ReqBody = None\<rparr>],
         leftover = [[]]\<rparr>))) = []"
  by (simp add: numeral_2_eq_2 two_pages_first two_pages_second two_pages_third)
     (simp add: new_Iterator_def Close_def)

text \<open>
  C2, amended: with a page of \<open>P\<close> items and an index \<open>i < P - 1\<close>, \<open>Next\<close> sends no request
  and reads no body (the world is unchanged) and changes nothing but the index: on a live
  iterator it returns true and adds one to the index, on an exhausted or failed one it
  returns false and changes nothing at all.
\<close>

theorem Next_in_page:
  "index i < int (length (results i)) - 1 \<Longrightarrow>
     Next L i w = (if it_done i \<or> Error i \<noteq> None then (False, i, w)
                   else (True, i\<lparr>index := index i + 1\<rparr>, w))"
  by (simp add: Next_def)

theorem Next_in_page_witness:
  "index ((new_Iterator (test_client two_pages) False True ''p2'')
        \<lparr>results := [Some test_item, Some test_item]\<rparr>)
     < int (length (results ((new_Iterator (test_client two_pages) False True ''p2'')
        \<lparr>results := [Some test_item, Some test_item]\<rparr>))) - 1
   \<and> Next test_lib ((new_Iterator (test_client two_pages) False True ''p2'')
        \<lparr>results := [Some test_item, Some test_item]\<rparr>) w0
     = (True,
        (new_Iterator (test_client two_pages) False True ''p2'')
          \<lparr>index := 1, results := [Some test_item, Some test_item]\<rparr>, w0)"
  using Next_in_page [where i = "(new_Iterator (test_client two_pages) False True ''p2'')
        \<lparr>results := [Some test_item, Some test_item]\<rparr>" and L = test_lib and w = w0]
  by (simp add: new_Iterator_def)

subsection \<open>The iterator: sequences of calls\<close>

lemma Next_calls_add:
  "Next_calls L (a + b) i w =
     (case Next_calls L a i w of (bs, i1, w1) \<Rightarrow>
        (case Next_calls L b i1 w1 of (bs2, i2, w2) \<Rightarrow> (bs @ bs2, i2, w2)))"
  by (induction a arbitrary: i w) (simp_all split: prod.splits)

lemma Next_calls_in_page:
  "\<not> it_done i \<Longrightarrow> Error i = None \<Longrightarrow> index i + int n \<le> int (length (results i)) - 1 \<Longrightarrow>
     Next_calls L n i w = (replicate n True, i\<lparr>index := index i + int n\<rparr>, w)"
proof (induction n arbitrary: i)
  case 0
  then show ?case by simp
next
  case (Suc n)
  have step: "Next L i w = (True, i\<lparr>index := index i + 1\<rparr>, w)"
    using Suc.prems by (simp add: Next_def)
  have "Next_calls L n (i\<lparr>index := index i + 1\<rparr>) w =
          (replicate n True, (i\<lparr>index := index i + 1\<rparr>)\<lparr>index := index (i\<lparr>index := index i + 1\<rparr>) + int n\<rparr>, w)"
    using Suc.prems by (intro Suc.IH) simp_all
  then show ?case
    by (simp add: step add.assoc)
qed

lemma Next_fetch:
  assumes "\<not> it_done i" and "Error i = None" and "\<not> index i < int (length (results i)) - 1"
    and "it_next i \<noteq> []"
    and "jsonReply L (it_client i) (decode_jsonList L) ''GET'' (it_next i) None 200 w = (Inr (resp, res), w1)"
  shows "Next L i w =
           (if Results res = []
            then (False, i\<lparr>it_next := TrimPrefix (Next_link res) ''/v0/'', results := [], it_done := True\<rparr>, w1)
            else (True, i\<lparr>it_next := TrimPrefix (Next_link res) ''/v0/'', results := Results res, index := 0\<rparr>, w1))"
  using assms by (simp add: Next_def)

lemma Next_calls_page:
  assumes "\<not> it_done i" and "Error i = None" and "\<not> index i < int (length (results i)) - 1"
    and "it_next i \<noteq> []"
    and "jsonReply L (it_client i) (decode_jsonList L) ''GET'' (it_next i) None 200 w = (Inr (resp, res), w1)"
    and "Results res \<noteq> []"
  shows "Next_calls L (length (Results res)) i w =
           (replicate (length (Results res)) True,
            i\<lparr>it_next := TrimPrefix (Next_link res) ''/v0/'', results := Results res,
              index := int (length (Results res)) - 1\<rparr>, w1)"
proof -
  obtain k where k: "length (Results res) = Suc k"
    using assms(6) by (cases "Results res") simp_all
  let ?i1 = "i\<lparr>it_next := TrimPrefix (Next_link res) ''/v0/'', results := Results res, index := 0\<rparr>"
  have first: "Next L i w = (True, ?i1, w1)"
    using Next_fetch [OF assms(1-5)] assms(6) by simp
  have rest: "Next_calls L k ?i1 w1 = (replicate k True, ?i1\<lparr>index := index ?i1 + int k\<rparr>, w1)"
    using assms(1,2) k by (intro Next_calls_in_page) simp_all
  show ?thesis
    by (simp add: k first rest)
qed

lemma jsonReply_sent:
  "jsonReply L c dec m p b st w = (Inr x, w1) \<Longrightarrow> length (sent w1) = Suc (length (sent w))"
  by (auto simp: jsonReply_def doRequest_def Close_def Let_def
           split: prod.splits sum.splits option.splits if_splits)

lemma Next_calls_pages:
  assumes "serves_pages L (it_client i) w (it_next i) pages"
    and "\<forall>p\<in>set (butlast pages). p \<noteq> []"
    and "\<not> it_done i" and "Error i = None" and "\<not> index i < int (length (results i)) - 1"
  shows "\<exists>i' w'. Next_calls L (length (concat pages) + Suc m) i w =
                    (replicate (length (concat pages)) True @ replicate (Suc m) False, i', w')
                \<and> length (sent w') = length (sent w) + length pages
                \<and> Error i' = None \<and> it_done i'"
  using assms
proof (induction pages arbitrary: i w)
  case Nil
  then show ?case by simp
next
  case (Cons p ps)
  from Cons.prems(1) obtain resp res w1 where
    u: "it_next i \<noteq> []" and
    reply: "jsonReply L (it_client i) (decode_jsonList L) ''GET'' (it_next i) None 200 w = (Inr (resp, res), w1)" and
    page: "Results res = p" and
    link: "if ps = [] then TrimPrefix (Next_link res) ''/v0/'' = []
           else serves_pages L (it_client i) w1 (TrimPrefix (Next_link res) ''/v0/'') ps"
    by (auto split: prod.splits sum.splits)
  have sent1: "length (sent w1) = Suc (length (sent w))"
    using reply by (rule jsonReply_sent)
  show ?case
  proof (cases "p = []")
    case True
    then have ps: "ps = []"
      using Cons.prems(2) by (cases ps) auto
    let ?i1 = "i\<lparr>it_next := TrimPrefix (Next_link res) ''/v0/'', results := [], it_done := True\<rparr>"
    have first: "Next L i w = (False, ?i1, w1)"
      using Next_fetch [OF Cons.prems(3,4,5) u reply] page True by simp
    have rest: "Next_calls L m ?i1 w1 = (replicate m False, ?i1, w1)"
      by (rule Next_calls_stopped) simp
    show ?thesis
      using Cons.prems(4) by (simp add: True ps first rest sent1)
  next
    case False
    let ?i1 = "i\<lparr>it_next := TrimPrefix (Next_link res) ''/v0/'', results := p,
                  index := int (length p) - 1\<rparr>"
    have run: "Next_calls L (length p) i w = (replicate (length p) True, ?i1, w1)"
      using Next_calls_page [OF Cons.prems(3,4,5) u reply] page False by simp
    show ?thesis
    proof (cases "ps = []")
      case True
      let ?i2 = "?i1\<lparr>it_done := True\<rparr>"
      have last_call: "Next L ?i1 w1 = (False, ?i2, w1)"
        using Cons.prems(3,4) link True by (simp add: Next_def)
      have rest: "Next_calls L m ?i2 w1 = (replicate m False, ?i2, w1)"
        by (rule Next_calls_stopped) simp
      have stop: "Next_calls L (Suc m) ?i1 w1 = (replicate (Suc m) False, ?i2, w1)"
        by (simp add: last_call rest)
      have "Next_calls L (length p + Suc m) i w =
              (replicate (length p) True @ replicate (Suc m) False, ?i2, w1)"
        using Next_calls_add [of L "length p" "Suc m" i w]
        by (simp only: run stop prod.case)
      then show ?thesis
        using Cons.prems(4) by (simp add: True sent1)
    next
      case ps: False
      have nonempty: "\<forall>q\<in>set (butlast ps). q \<noteq> []"
        using Cons.prems(2) ps by simp
      have "\<exists>i' w'. Next_calls L (length (concat ps) + Suc m) ?i1 w1 =
                    (replicate (length (concat ps)) True @ replicate (Suc m) False, i', w')
                \<and> length (sent w') = length (sent w1) + length ps
                \<and> Error i' = None \<and> it_done i'"
        using Cons.prems(3,4) link ps nonempty by (intro Cons.IH) simp_all
      then obtain i' w' where
        tail: "Next_calls L (length (concat ps) + Suc m) ?i1 w1 =
                 (replicate (length (concat ps)) True @ replicate (Suc m) False, i', w')" and
        fin: "length (sent w') = length (sent w1) + length ps" "Error i' = None" "it_done i'"
        by blast
      have "Next_calls L (length p + (length (concat ps) + Suc m)) i w =
              (replicate (length p) True @ replicate (length (concat ps)) True
                 @ replicate (Suc m) False, i', w')"
        using Next_calls_add [of L "length p" "length (concat ps) + Suc m" i w]
        by (simp only: run tail prod.case)
      then have "Next_calls L (length (concat (p # ps)) + Suc m) i w =
              (replicate (length (concat (p # ps))) True @ replicate (Suc m) False, i', w')"
        by (simp add: replicate_add add.assoc)
      then show ?thesis
        using fin sent1 by auto
    qed
  qed
qed

lemma full_pages_count:
  fixes lim :: nat
  assumes "pages \<noteq> []" and "0 < lim" and "\<forall>p\<in>set (butlast pages). length p = lim"
    and "0 < length (last pages)" and "length (last pages) \<le> lim"
  shows "length pages = (length (concat pages) + lim - 1) div lim"
  using assms
proof (induction pages)
  case Nil
  then show ?case by simp
next
  case (Cons p ps)
  show ?case
  proof (cases "ps = []")
    case True
    then have "0 < length p" "length p \<le> lim"
      using Cons.prems by simp_all
    then obtain k where k: "length p = Suc k" "k < lim"
      by (cases "length p") simp_all
    have "(length p + lim - 1) div lim = (k + lim) div lim"
      by (simp add: k)
    also have "\<dots> = 1"
      using k(2) Cons.prems(2) by (simp add: div_add_self2)
    finally show ?thesis by (simp add: True)
  next
    case False
    then have p: "length p = lim" and rest: "length ps = (length (concat ps) + lim - 1) div lim"
      using Cons by simp_all
    obtain j where j: "lim = Suc j"
      using Cons.prems(2) by (cases lim) simp_all
    have "length p + length (concat ps) + lim - 1 = (length (concat ps) + lim - 1) + lim"
      by (simp add: p j)
    then have "(length p + length (concat ps) + lim - 1) div lim
                 = Suc ((length (concat ps) + lim - 1) div lim)"
      using Cons.prems(2) by (simp only: div_add_self2)
    then show ?thesis
      by (simp add: rest)
  qed
qed

subsection \<open>The listing operations\<close>

lemma run_listing_fresh:
  "Error (run_listing L c call) = None" "it_client (run_listing L c call) = client c"
  "\<not> it_done (run_listing L c call)" "index (run_listing L c call) = 0"
  "results (run_listing L c call) = []"
  "iteratingItems (run_listing L c call) = (\<not> iteratingEvents (run_listing L c call))"
  by (cases call; simp add: List_def Search_def History_def ListEvents_def GetLinks_def
        new_Iterator_def Let_def)+

text \<open>Only \<open>List\<close> without a query on a collection without a name starts with an empty path.\<close>

lemma run_listing_path:
  "(it_next (run_listing L c call) = []) = (call = Call_List None \<and> Name c = [])"
  by (cases call)
     (auto simp: List_def Search_def History_def ListEvents_def GetLinks_def new_Iterator_def
        Let_def split: option.splits)

lemma no_items_first:
  "Next test_lib (List test_lib (test_collection no_items) None) w0 =
     (False,
      (new_Iterator (test_client no_items) False True [])\<lparr>it_done := True\<rparr>,
      \<lparr>sent = [\<lparr>Method = ''GET'', URL = ''http://h/v0/c'', BasicAuth = (''t'', []),
                ReqHeader = [(''Accept-Encoding'', ''gzip; deflate''), (''User-Agent'', userAgent)],
                ReqBody = None\<rparr>],
       leftover = [[]]\<rparr>)"
  by (simp add: Next_def List_def test_collection_def new_Iterator_def jsonReply_test_200
        no_items_def test_response_def test_page_def Close_def w0_def TrimPrefix_def)

lemma two_pages_served:
  "serves_pages test_lib (test_client two_pages) w0 ''c'' [[Some test_item, Some test_item], [Some test_item]]"
  by (simp add: jsonReply_test_200 two_pages_def test_response_def test_page_def TrimPrefix_def)

lemma no_items_served:
  "serves_pages test_lib (test_client no_items) w0 ''c'' [[]]"
  by (simp add: jsonReply_test_200 no_items_def test_response_def test_page_def TrimPrefix_def)

text \<open>
  C1, as the claim states it: \<open>N\<close> items in pages of at most \<open>L\<close> items, the last page with an
  empty link, give \<open>N\<close> times true and \<open>ceil(N/L)\<close> requests. It fails for \<open>N = 0\<close>: the server
  with nothing to list answers one empty page, the iterator has to send one request to
  learn that, and \<open>ceil(0/10) = 0\<close>. It also fails when a page is not full: the two-page
  server gives its three items in pages of two and one, which are pages of at most three
  items, in two requests, and \<open>ceil(3/3) = 1\<close>.
\<close>

theorem listing_exhaustion_counterexample:
  "serves_pages test_lib (client (test_collection no_items)) w0
      (it_next (run_listing test_lib (test_collection no_items) (Call_List None))) [[]]
   \<and> length (concat [[] :: jsonListItem option list]) = 0
   \<and> fst (Next_calls test_lib 1 (run_listing test_lib (test_collection no_items) (Call_List None)) w0)
      = [False]
   \<and> length (sent (snd (snd (Next_calls test_lib 1
        (run_listing test_lib (test_collection no_items) (Call_List None)) w0)))) = 1
   \<and> (0 + 10 - 1) div 10 = (0 :: nat)
   \<and> serves_pages test_lib (client (test_collection two_pages)) w0
      (it_next (run_listing test_lib (test_collection two_pages) (Call_List None)))
      [[Some test_item, Some test_item], [Some test_item]]
   \<and> fst (Next_calls test_lib 4 (run_listing test_lib (test_collection two_pages) (Call_List None)) w0)
      = [True, True, True, False]
   \<and> length (sent (snd (snd (Next_calls test_lib 4
        (run_listing test_lib (test_collection two_pages) (Call_List None)) w0)))) = 2
   \<and> (3 + 3 - 1) div 3 = (1 :: nat)"
proof -
  have a: "it_next (List test_lib (test_collection srv) None) = ''c''" for srv
    by (simp add: List_def test_collection_def new_Iterator_def)
  have b: "client (test_collection srv) = test_client srv" for srv
    by (simp add: test_collection_def)
  have c: "Next_calls test_lib 1 (List test_lib (test_collection no_items) None) w0 =
             ([False], (new_Iterator (test_client no_items) False True [])\<lparr>it_done := True\<rparr>,
              \<lparr>sent = [\<lparr>Method = ''GET'', URL = ''http://h/v0/c'', BasicAuth = (''t'', []),
                ReqHeader = [(''Accept-Encoding'', ''gzip; deflate''), (''User-Agent'', userAgent)],
                ReqBody = None\<rparr>],
               leftover = [[]]\<rparr>)"
    by (simp add: no_items_first)
  have d: "Next_calls test_lib 4 (List test_lib (test_collection two_pages) None) w0 =
             ([True, True, True, False],
              (new_Iterator (test_client two_pages) False True [])
                 \<lparr>it_done := True, results := [Some test_item]\<rparr>,
              Close ((two_pages \<lparr>Method = ''GET'', URL = ''http://h/v0/p2'', BasicAuth = (''t'', []),
                ReqHeader = [(''Accept-Encoding'', ''gzip; deflate''), (''User-Agent'', userAgent)],
                ReqBody = None\<rparr>)\<lparr>Body := []\<rparr>)
               \<lparr>sent = [\<lparr>Method = ''GET'', URL = ''http://h/v0/c'', BasicAuth = (''t'', []),
                ReqHeader = [(''Accept-Encoding'', ''gzip; deflate''), (''User-Agent'', userAgent)],
                ReqBody = None\<rparr>,
                \<lparr>Method = ''GET'', URL = ''http://h/v0/p2'', BasicAuth = (''t'', []),
                ReqHeader = [(''Accept-Encoding'', ''gzip; deflate''), (''User-Agent'', userAgent)],
                ReqBody = None\<rparr>],
               leftover = [[]]\<rparr>)"
    by (simp add: eval_nat_numeral two_pages_first two_pages_second two_pages_third
          two_pages_fourth)
  have e: "serves_pages test_lib (client (test_collection no_items)) w0
      (it_next (run_listing test_lib (test_collection no_items) (Call_List None))) [[]]"
    by (simp only: run_listing.simps a b no_items_served)
  have f: "serves_pages test_lib (client (test_collection two_pages)) w0
      (it_next (run_listing test_lib (test_collection two_pages) (Call_List None)))
      [[Some test_item, Some test_item], [Some test_item]]"
    by (simp only: run_listing.simps a b two_pages_served)
  show ?thesis
    by (intro conjI e f) (simp_all only: run_listing.simps c d, simp_all add: Close_def)
qed

text \<open>
  C1, amended. Let a listing operation (\<open>List\<close>, \<open>Search\<close>, \<open>History\<close>, \<open>ListEvents\<close>,
  \<open>GetLinks\<close>) start at a path that is not empty, and let the server answer it in pages that
  hold \<open>N\<close> items in all, every page but the last with at least one item and a link, the last
  with an empty link. Then the first \<open>N\<close> calls of \<open>Next\<close> return true, every later call
  returns false, the calls send as many requests as there are pages, and the iterator ends
  exhausted and without an error. The number of pages is \<open>ceil(N/L)\<close> when every page but
  the last holds exactly \<open>L\<close> items and the last between 1 and \<open>L\<close>.
\<close>

theorem listing_exhaustion:
  assumes "serves_pages L (client c) w (it_next (run_listing L c call)) pages"
    and "\<forall>p\<in>set (butlast pages). p \<noteq> []"
  shows "\<exists>i' w'.
           Next_calls L (length (concat pages) + Suc m) (run_listing L c call) w =
             (replicate (length (concat pages)) True @ replicate (Suc m) False, i', w')
           \<and> length (sent w') = length (sent w) + length pages
           \<and> Error i' = None \<and> it_done i'
           \<and> (0 < lim \<and> (\<forall>p\<in>set (butlast pages). length p = lim)
                \<and> 0 < length (last pages) \<and> length (last pages) \<le> lim
              \<longrightarrow> length pages = (length (concat pages) + lim - 1) div lim)"
proof -
  have nonempty: "pages \<noteq> []"
    using assms(1) by (cases pages) simp_all
  have "\<exists>i' w'.
           Next_calls L (length (concat pages) + Suc m) (run_listing L c call) w =
             (replicate (length (concat pages)) True @ replicate (Suc m) False, i', w')
           \<and> length (sent w') = length (sent w) + length pages
           \<and> Error i' = None \<and> it_done i'"
    using assms by (intro Next_calls_pages) (simp_all add: run_listing_fresh)
  then show ?thesis
    using full_pages_count [OF nonempty, of lim] by blast
qed

theorem listing_exhaustion_witness:
  "serves_pages test_lib (client (test_collection two_pages)) w0
      (it_next (run_listing test_lib (test_collection two_pages) (Call_List None)))
      [[Some test_item, Some test_item], [Some test_item]]
   \<and> (\<exists>i' w'. Next_calls test_lib 4 (run_listing test_lib (test_collection two_pages) (Call_List None)) w0
                 = ([True, True, True, False], i', w')
               \<and> length (sent w') = 2 \<and> Error i' = None \<and> it_done i')
   \<and> (2 :: nat) = (3 + 2 - 1) div 2"
proof -
  have a: "it_next (List test_lib (test_collection two_pages) None) = ''c''"
    by (simp add: List_def test_collection_def new_Iterator_def)
  have b: "client (test_collection two_pages) = test_client two_pages"
    by (simp add: test_collection_def)
  have served: "serves_pages test_lib (client (test_collection two_pages)) w0
      (it_next (run_listing test_lib (test_collection two_pages) (Call_List None)))
      [[Some test_item, Some test_item], [Some test_item]]"
    by (simp only: run_listing.simps a b two_pages_served)
  have nonempty: "\<forall>p\<in>set (butlast [[Some test_item, Some test_item], [Some test_item]]). p \<noteq> []"
    by simp
  show ?thesis
    using listing_exhaustion [OF served nonempty, where m = 0 and lim = 2] served
    by (simp del: Next_calls.simps serves_pages.simps add: eval_nat_numeral w0_def) blast
qed

subsection \<open>The index stays inside the page\<close>

lemma Next_index_nonneg: "0 \<le> index i \<Longrightarrow> Next L i w = (b, i1, w1) \<Longrightarrow> 0 \<le> index i1"
  by (auto simp: Next_def Let_def split: if_splits prod.splits sum.splits)

lemma Next_true_bound: "Next L i w = (True, i1, w1) \<Longrightarrow> index i1 < int (length (results i1))"
  by (auto simp: Next_def Let_def split: if_splits prod.splits sum.splits)

lemma Next_calls_index_nonneg:
  "0 \<le> index i \<Longrightarrow> Next_calls L n i w = (bs, i1, w1) \<Longrightarrow> 0 \<le> index i1"
proof (induction n arbitrary: i w bs)
  case 0
  then show ?case by simp
next
  case (Suc n)
  obtain b i2 w2 where step: "Next L i w = (b, i2, w2)"
    by (cases "Next L i w") auto
  obtain bs2 where "Next_calls L n i2 w2 = (bs2, i1, w1)"
    using Suc.prems(2) step by (auto split: prod.splits)
  moreover have "0 \<le> index i2"
    using Suc.prems(1) step by (rule Next_index_nonneg)
  ultimately show ?case
    by (rule Suc.IH [rotated])
qed

lemma Next_calls_last:
  assumes "Next_calls L (Suc n) i w = (bs, i1, w1)"
  shows "\<exists>bs0 i0 w0'. Next_calls L n i w = (bs0, i0, w0') \<and> Next L i0 w0' = (last bs, i1, w1)"
proof -
  obtain bs0 i0 w0' where a: "Next_calls L n i w = (bs0, i0, w0')"
    by (cases "Next_calls L n i w") auto
  obtain b i2 w2 where b: "Next L i0 w0' = (b, i2, w2)"
    by (cases "Next L i0 w0'") auto
  have c: "Next_calls L 1 i0 w0' = ([b], i2, w2)"
    by (simp add: b)
  have "Next_calls L (n + 1) i w = (bs0 @ [b], i2, w2)"
    by (simp only: Next_calls_add a c prod.case)
  moreover have "Next_calls L (n + 1) i w = (bs, i1, w1)"
    using assms by (simp only: Suc_eq_plus1)
  ultimately have "bs = bs0 @ [b]" "i2 = i1" "w2 = w1"
    by simp_all
  then show ?thesis
    using a b by simp
qed

text \<open>
  C10. On the iterator of a listing operation, after any number of calls of \<open>Next\<close> of which
  the last returned true, \<open>0 \<le> index < len(results)\<close>, so the slice access of \<open>Get\<close> and
  \<open>GetEvent\<close> is in range; a single call that returns true establishes the bound from
  \<open>0 \<le> index\<close> alone. The iterator as the listing operation returns it has no results and
  index 0: the accessor of its kind (\<open>Get\<close> for items, \<open>GetEvent\<close> for events) reads out of
  range.
\<close>

theorem Next_true_in_bounds:
  "(Next_calls L (Suc n) (run_listing L c call) w = (bs, i1, w1) \<and> last bs \<longrightarrow>
      0 \<le> index i1 \<and> index i1 < int (length (results i1))
      \<and> Iterator_Get L i1 v \<noteq> Inl IndexOutOfRange
      \<and> Iterator_GetEvent L i1 v \<noteq> Inl IndexOutOfRange)
   \<and> (0 \<le> index i \<and> Next L i w = (True, i2, w2) \<longrightarrow>
        0 \<le> index i2 \<and> index i2 < int (length (results i2)))
   \<and> index (run_listing L c call) = 0 \<and> results (run_listing L c call) = []
   \<and> (iteratingItems (run_listing L c call) \<longrightarrow>
        Iterator_Get L (run_listing L c call) v = Inl IndexOutOfRange)
   \<and> (iteratingEvents (run_listing L c call) \<longrightarrow>
        Iterator_GetEvent L (run_listing L c call) v = Inl IndexOutOfRange)
   \<and> (iteratingItems (run_listing L c call) \<or> iteratingEvents (run_listing L c call))"
proof -
  have first: "0 \<le> index i1 \<and> index i1 < int (length (results i1))"
    if run: "Next_calls L (Suc n) (run_listing L c call) w = (bs, i1, w1)" and "last bs"
  proof -
    obtain bs0 i0 w0' where
      a: "Next_calls L n (run_listing L c call) w = (bs0, i0, w0')" and
      b: "Next L i0 w0' = (last bs, i1, w1)"
      using Next_calls_last [OF run] by blast
    have "0 \<le> index i0"
      using a by (rule Next_calls_index_nonneg [rotated]) (simp add: run_listing_fresh)
    then show ?thesis
      using b that(2) Next_index_nonneg Next_true_bound by auto
  qed
  have get: "Iterator_Get L j v \<noteq> Inl IndexOutOfRange \<and> Iterator_GetEvent L j v \<noteq> Inl IndexOutOfRange"
    if "0 \<le> index j" "index j < int (length (results j))" for j
    using that by (auto simp: Iterator_Get_def Iterator_GetEvent_def Let_def split: option.splits)
  show ?thesis
    using first get Next_index_nonneg [of i L w True i2 w2] Next_true_bound [of L i w i2 w2]
    by (auto simp: run_listing_fresh Iterator_Get_def Iterator_GetEvent_def)
qed

theorem Next_true_in_bounds_witness:
  "Next_calls test_lib (Suc 1) (run_listing test_lib (test_collection two_pages) (Call_List None)) w0
     = ([True, True],
        (new_Iterator (test_client two_pages) False True ''p2'')
          \<lparr>index := 1, results := [Some test_item, Some test_item]\<rparr>,
        \<lparr>sent = [\<lparr>Method = ''GET'', URL = ''http://h/v0/c'', BasicAuth = (''t'', []),
                ReqHeader = [(''Accept-Encoding'', ''gzip; deflate''), (''User-Agent'', userAgent)],
                ReqBody = None\<rparr>],
         leftover = [[]]\<rparr>)
   \<and> last [True, True]
   \<and> 0 \<le> index ((new_Iterator (test_client two_pages) False True ''p2'')
          \<lparr>index := 1, results := [Some test_item, Some test_item]\<rparr>)
   \<and> index ((new_Iterator (test_client two_pages) False True ''p2'')
          \<lparr>index := 1, results := [Some test_item, Some test_item]\<rparr>)
       < int (length (results ((new_Iterator (test_client two_pages) False True ''p2'')
          \<lparr>index := 1, results := [Some test_item, Some test_item]\<rparr>)))
   \<and> iteratingItems (run_listing test_lib (test_collection two_pages) (Call_List None))
   \<and> Iterator_Get test_lib (run_listing test_lib (test_collection two_pages) (Call_List None)) None
       = Inl IndexOutOfRange"
proof -
  have run: "Next_calls test_lib (Suc 1) (run_listing test_lib (test_collection two_pages) (Call_List None)) w0
     = ([True, True],
        (new_Iterator (test_client two_pages) False True ''p2'')
          \<lparr>index := 1, results := [Some test_item, Some test_item]\<rparr>,
        \<lparr>sent = [\<lparr>Method = ''GET'', URL = ''http://h/v0/c'', BasicAuth = (''t'', []),
                ReqHeader = [(''Accept-Encoding'', ''gzip; deflate''), (''User-Agent'', userAgent)],
                ReqBody = None\<rparr>],
         leftover = [[]]\<rparr>)"
    by (simp add: two_pages_first two_pages_second)
  have items: "iteratingItems (run_listing test_lib (test_collection two_pages) (Call_List None))"
    by (simp add: List_def new_Iterator_def)
  show ?thesis
    using Next_true_in_bounds [where L = test_lib and n = 1 and c = "test_collection two_pages"
        and call = "Call_List None" and w = w0 and bs = "[True, True]"
        and ?i1.0 = "(new_Iterator (test_client two_pages) False True ''p2'')
          \<lparr>index := 1, results := [Some test_item, Some test_item]\<rparr>"
        and ?w1.0 = "\<lparr>sent = [\<lparr>Method = ''GET'', URL = ''http://h/v0/c'', BasicAuth = (''t'', []),
                ReqHeader = [(''Accept-Encoding'', ''gzip; deflate''), (''User-Agent'', userAgent)],
                ReqBody = None\<rparr>],
         leftover = [[]]\<rparr>" and v = None]
      run items
    by (simp del: Next_calls.simps run_listing.simps)
qed

subsection \<open>Status 412 on create and on the conditional operations\<close>

lemma emptyReply_412:
  "fst (doRequest L c m p h b w) = Inr resp \<Longrightarrow> StatusCode resp = 412 \<Longrightarrow> status \<noteq> 412 \<Longrightarrow>
     fst (emptyReply L c m p h b status w) = Inl (PreconditionFailedError ''412: Precondition failed.'')"
  by (auto simp: emptyReply_def newError_def split: prod.splits sum.splits)

lemma Create_412:
  assumes "json_Marshal L val = Inr raw"
    and "fst (doRequest L (client c) ''PUT'' (Name c @ ''/'' @ key) [(''If-None-Match'', ''\"*\"'')]
               (Some raw) w) = Inr resp"
    and "StatusCode resp = 412"
  shows "fst (Create L c key val w) = (None, Some (AlreadyExistsError key))"
proof -
  have "fst (emptyReply L (client c) ''PUT'' (Name c @ ''/'' @ key) [(''If-None-Match'', ''\"*\"'')]
               (Some raw) 201 w) = Inl (PreconditionFailedError ''412: Precondition failed.'')"
    using assms(2,3) by (rule emptyReply_412) simp
  then show ?thesis
    using assms(1) by (auto simp: Create_def innerPut_def Let_def new_Item_def split: prod.splits)
qed

lemma Item_Update_412:
  assumes "json_Marshal L val = Inr raw"
    and "fst (doRequest L (client (Collection i)) ''PUT'' (Name (Collection i) @ ''/'' @ Key i)
               [(''If-Match'', ''\"'' @ Ref i @ ''\"'')] (Some raw) w) = Inr resp"
    and "StatusCode resp = 412"
  shows "fst (Item_Update L i val w) = (None, Some (NotMostRecentError (Key i)))"
proof -
  have "fst (emptyReply L (client (Collection i)) ''PUT'' (Name (Collection i) @ ''/'' @ Key i)
               [(''If-Match'', ''\"'' @ Ref i @ ''\"'')] (Some raw) 201 w)
             = Inl (PreconditionFailedError ''412: Precondition failed.'')"
    using assms(2,3) by (rule emptyReply_412) simp
  then show ?thesis
    using assms(1) by (auto simp: Item_Update_def innerPut_def Let_def new_Item_def split: prod.splits)
qed

lemma Item_Delete_412:
  assumes "fst (doRequest L (client (Collection i)) ''DELETE'' (Name (Collection i) @ ''/'' @ Key i)
               [(''If-Match'', ''\"'' @ Ref i @ ''\"'')] None w) = Inr resp"
    and "StatusCode resp = 412"
  shows "fst (Item_Delete L i w) = Some (NotMostRecentError (Ref i))"
proof -
  have "fst (emptyReply L (client (Collection i)) ''DELETE'' (Name (Collection i) @ ''/'' @ Key i)
               [(''If-Match'', ''\"'' @ Ref i @ ''\"'')] None 204 w)
             = Inl (PreconditionFailedError ''412: Precondition failed.'')"
    using assms by (rule emptyReply_412) simp
  then show ?thesis
    by (auto simp: Item_Delete_def Let_def split: prod.splits)
qed

text \<open>
  C4. When the request of the call is answered with status 412, \<open>Create\<close> returns no item and
  an \<open>AlreadyExistsError\<close> (of the key), \<open>Item.Update\<close> returns no item and a
  \<open>NotMostRecentError\<close> (of the key) and \<open>Item.Delete\<close> returns a \<open>NotMostRecentError\<close> (of the
  ref): no other error comes out of a 412 on these calls.
\<close>

theorem precondition_failed_reclassified:
  "(json_Marshal L val = Inr raw
      \<and> fst (doRequest L (client c) ''PUT'' (Name c @ ''/'' @ key) [(''If-None-Match'', ''\"*\"'')]
               (Some raw) w) = Inr resp
      \<and> StatusCode resp = 412
      \<longrightarrow> fst (Create L c key val w) = (None, Some (AlreadyExistsError key)))
   \<and> (json_Marshal L val = Inr raw
      \<and> fst (doRequest L (client (Collection i)) ''PUT'' (Name (Collection i) @ ''/'' @ Key i)
               [(''If-Match'', ''\"'' @ Ref i @ ''\"'')] (Some raw) w) = Inr resp
      \<and> StatusCode resp = 412
      \<longrightarrow> fst (Item_Update L i val w) = (None, Some (NotMostRecentError (Key i))))
   \<and> (fst (doRequest L (client (Collection i)) ''DELETE'' (Name (Collection i) @ ''/'' @ Key i)
               [(''If-Match'', ''\"'' @ Ref i @ ''\"'')] None w) = Inr resp
      \<and> StatusCode resp = 412
      \<longrightarrow> fst (Item_Delete L i w) = Some (NotMostRecentError (Ref i)))"
  using Create_412 [of L val raw c key w resp] Item_Update_412 [of L val raw i w resp]
    Item_Delete_412 [of L i w resp]
  by blast

theorem precondition_failed_reclassified_witness:
  "json_Marshal test_lib ''{}'' = Inr ''{}''
   \<and> fst (doRequest test_lib (client (test_collection answers_412)) ''PUT''
            (Name (test_collection answers_412) @ ''/'' @ ''k'') [(''If-None-Match'', ''\"*\"'')]
            (Some ''{}'') w0) = Inr (test_response 412 [] ''{}'')
   \<and> StatusCode (test_response 412 [] ''{}'') = 412
   \<and> fst (Create test_lib (test_collection answers_412) ''k'' ''{}'' w0)
       = (None, Some (AlreadyExistsError ''k''))
   \<and> fst (Item_Update test_lib (test_item_at answers_412) ''{}'' w0)
       = (None, Some (NotMostRecentError ''k''))
   \<and> fst (Item_Delete test_lib (test_item_at answers_412) w0) = Some (NotMostRecentError ''r1'')"
proof -
  have a: "client (test_collection answers_412) = test_client answers_412"
    "Name (test_collection answers_412) = ''c''"
    "Collection (test_item_at answers_412) = test_collection answers_412"
    "Key (test_item_at answers_412) = ''k''" "Ref (test_item_at answers_412) = ''r1''"
    by (simp_all add: test_collection_def test_item_at_def new_Item_def)
  have b: "json_Marshal test_lib ''{}'' = Inr ''{}''"
    by (simp add: test_lib_def)
  have c: "StatusCode (test_response 412 [] ''{}'') = 412"
    by (simp add: test_response_def)
  show ?thesis
    using precondition_failed_reclassified [where L = test_lib and val = "''{}''" and raw = "''{}''"
        and c = "test_collection answers_412" and key = "''k''" and w = w0
        and resp = "test_response 412 [] ''{}''" and i = "test_item_at answers_412"]
    by (simp add: a b c doRequest_test answers_412_def)
qed

subsection \<open>How much of a response body is read\<close>

lemma doRequest_leftover: "leftover (snd (doRequest L c m p h b w)) = leftover w"
  by (simp add: doRequest_def Let_def split: option.splits)

text \<open>
  C9, as the claim states it: whenever \<open>emptyReply\<close> or \<open>jsonReply\<close> has received a response,
  its body has been read to the end when the call returns. It fails on the error path: a
  \<^verbatim>\<open>DELETE\<close> that expects 204 and is answered by 404 with the body \<open>not found\<close> returns the
  \<open>NotFoundError\<close> and closes the body with all of it unread.
\<close>

theorem body_drained_counterexample:
  "fst (doRequest test_lib (test_client answers_404) ''DELETE'' ''c/k'' [] None w0)
     = Inr (test_response 404 [] ''not found'')
   \<and> fst (emptyReply test_lib (test_client answers_404) ''DELETE'' ''c/k'' [] None 204 w0)
     = Inl (NotFoundError ''404: Not found.'')
   \<and> leftover (snd (emptyReply test_lib (test_client answers_404) ''DELETE'' ''c/k'' [] None 204 w0))
     = [''not found'']"
  by (simp add: emptyReply_def doRequest_test answers_404_def newError_def test_response_def
        Close_def w0_def)

text \<open>
  C9, amended: when the response has the expected status, \<open>emptyReply\<close> reads the body to its
  end before it returns (nothing is left unread at \<open>Close\<close>), and \<open>jsonReply\<close> reads what its
  decoder reads for one JSON value and leaves the rest unread. (Nothing is said here about a
  response with another status.)
\<close>

theorem body_drained_on_success:
  "(fst (doRequest L c meth path headers body w) = Inr resp \<and> StatusCode resp = status \<longrightarrow>
      fst (emptyReply L c meth path headers body status w) = Inr (resp\<lparr>Body := []\<rparr>)
      \<and> leftover (snd (emptyReply L c meth path headers body status w)) = leftover w @ [[]])
   \<and> (fst (doRequest L c meth path [(''Accept-Encoding'', ''gzip; deflate'')] body w) = Inr resp
        \<and> StatusCode resp = status \<longrightarrow>
      leftover (snd (jsonReply L c dec meth path body status w))
        = leftover w @ [snd (dec (Header_Get (Header resp) ''Content-Encoding'') (Body resp))])"
proof (intro conjI impI)
  assume a: "fst (doRequest L c meth path headers body w) = Inr resp \<and> StatusCode resp = status"
  obtain w1 where w1: "doRequest L c meth path headers body w = (Inr resp, w1)"
    using a by (cases "doRequest L c meth path headers body w") auto
  have "leftover w1 = leftover w"
    using doRequest_leftover [of L c meth path headers body w] by (simp add: w1)
  then show "fst (emptyReply L c meth path headers body status w) = Inr (resp\<lparr>Body := []\<rparr>)"
    and "leftover (snd (emptyReply L c meth path headers body status w)) = leftover w @ [[]]"
    using a by (simp_all add: emptyReply_def w1 io_Copy_Discard_def Close_def)
next
  assume a: "fst (doRequest L c meth path [(''Accept-Encoding'', ''gzip; deflate'')] body w) = Inr resp
        \<and> StatusCode resp = status"
  obtain w1 where w1: "doRequest L c meth path [(''Accept-Encoding'', ''gzip; deflate'')] body w
                         = (Inr resp, w1)"
    using a by (cases "doRequest L c meth path [(''Accept-Encoding'', ''gzip; deflate'')] body w") auto
  have "leftover w1 = leftover w"
    using doRequest_leftover [of L c meth path "[(''Accept-Encoding'', ''gzip; deflate'')]" body w]
    by (simp add: w1)
  then show "leftover (snd (jsonReply L c dec meth path body status w))
        = leftover w @ [snd (dec (Header_Get (Header resp) ''Content-Encoding'') (Body resp))]"
    using a by (auto simp: jsonReply_def w1 Close_def split: prod.splits sum.splits)
qed

theorem body_drained_on_success_witness:
  "fst (doRequest test_lib (test_client answers_204) ''DELETE'' ''c/k'' [] None w0)
     = Inr (test_response 204 [] ''ignored'')
   \<and> StatusCode (test_response 204 [] ''ignored'') = 204
   \<and> fst (emptyReply test_lib (test_client answers_204) ''DELETE'' ''c/k'' [] None 204 w0)
     = Inr ((test_response 204 [] ''ignored'')\<lparr>Body := []\<rparr>)
   \<and> leftover (snd (emptyReply test_lib (test_client answers_204) ''DELETE'' ''c/k'' [] None 204 w0))
     = [[]]"
  using body_drained_on_success [where L = test_lib and c = "test_client answers_204"
      and meth = "''DELETE''" and path = "''c/k''" and headers = "[]" and body = None and w = w0
      and resp = "test_response 204 [] ''ignored''" and status = 204
      and dec = "decode_jsonList test_lib"]
  by (simp add: doRequest_test answers_204_def w0_def) (simp add: test_response_def)

subsection \<open>The ref after the last slash\<close>

lemma takeWhile_shorter: "x \<in> set xs \<Longrightarrow> \<not> P x \<Longrightarrow> length (takeWhile P xs) < length xs"
  by (induction xs) auto

lemma LastIndex_none: "(LastIndex s c = - 1) = (c \<notin> set s)"
proof (cases "c \<in> set s")
  case True
  then have "length (takeWhile (\<lambda>x. x \<noteq> c) (rev s)) < length (rev s)"
    by (intro takeWhile_shorter [of c]) simp_all
  then show ?thesis
    using True by (simp add: LastIndex_def)
next
  case False
  then show ?thesis by (simp add: LastIndex_def)
qed










subsection \<open>Missing and rejected headers\<close>

lemma emptyReply_expected:
  assumes "fst (doRequest L c m p h b w) = Inr resp" and "StatusCode resp = status"
  shows "fst (emptyReply L c m p h b status w) = Inr (resp\<lparr>Body := []\<rparr>)"
  using assms by (auto simp: emptyReply_def io_Copy_Discard_def Let_def split: prod.splits sum.splits)

lemma event_from_headers_rejects:
  "event_headers_rejected resp \<Longrightarrow> \<exists>msg. event_from_headers resp ev = (None, Some (GoError msg))"
  by (auto simp: event_headers_rejected_def event_from_headers_def Let_def split: sum.splits)

lemma event_from_headers_nil:
  "(fst (event_from_headers resp ev) = None) = (snd (event_from_headers resp ev) \<noteq> None)"
  by (auto simp: event_from_headers_def Let_def split: sum.splits)

lemma innerPut_nil:
  "(fst (fst (innerPut L c key hs val w)) = None) = (snd (fst (innerPut L c key hs val w)) \<noteq> None)"
  by (auto simp: innerPut_def Let_def split: sum.splits prod.splits)

lemma innerAddEvent_nil:
  "(fst (fst (innerAddEvent L c key ty ts val w)) = None)
     = (snd (fst (innerAddEvent L c key ty ts val w)) \<noteq> None)"
  using event_from_headers_nil
  by (auto simp: innerAddEvent_def Let_def split: sum.splits prod.splits)

lemma innerUpdateEvent_nil:
  "(fst (fst (innerUpdateEvent L c key ty t ordinal val hs w)) = None)
     = (snd (fst (innerUpdateEvent L c key ty t ordinal val hs w)) \<noteq> None)"
  using event_from_headers_nil
  by (auto simp: innerUpdateEvent_def Let_def split: sum.splits prod.splits)

lemma innerPut_no_slash:
  assumes "json_Marshal L val = Inr raw"
    and "fst (doRequest L (client c) ''PUT'' (Name c @ ''/'' @ key) hs (Some raw) w) = Inr resp"
    and "StatusCode resp = 201"
    and "CHR ''/'' \<notin> set (Header_Get (Header resp) ''Location'')"
  shows "fst (innerPut L c key hs val w) = (None, Some (GoError ''Missing Location header.''))"
  using emptyReply_expected [OF assms(2,3)] assms(1,4)
  by (auto simp: innerPut_def Let_def new_Item_def LastIndex_none split: prod.splits)

lemma innerAddEvent_rejects:
  assumes "json_Marshal L val = Inr raw"
    and "fst (doRequest L (client c) ''POST''
                (case ts of Some t \<Rightarrow> Name c @ ''/'' @ key @ ''/events/'' @ ty @ ''/'' @ Itoa (encode_ms t)
                          | None \<Rightarrow> Name c @ ''/'' @ key @ ''/events/'' @ ty)
                [(''Content-Type'', ''application/json'')] (Some raw) w) = Inr resp"
    and "StatusCode resp = 201"
    and "event_headers_rejected resp"
  shows "\<exists>msg. fst (innerAddEvent L c key ty ts val w) = (None, Some (GoError msg))"
proof -
  have "event_headers_rejected (resp\<lparr>Body := []\<rparr>)"
    using assms(4) by (simp add: event_headers_rejected_def)
  then show ?thesis
    using emptyReply_expected [OF assms(2,3)] assms(1)
      event_from_headers_rejects [of "resp\<lparr>Body := []\<rparr>"]
    by (auto simp: innerAddEvent_def Let_def new_Event_def split: prod.splits)
qed

lemma innerUpdateEvent_rejects:
  assumes "json_Marshal L val = Inr raw"
    and "fst (doRequest L (client c) ''PUT''
                (Name c @ ''/'' @ key @ ''/events/'' @ ty @ ''/'' @ Itoa (encode_ms t) @ ''/''
                   @ Itoa ordinal)
                hs (Some raw) w) = Inr resp"
    and "StatusCode resp = 204"
    and "event_headers_rejected resp"
  shows "\<exists>msg. fst (innerUpdateEvent L c key ty t ordinal val hs w) = (None, Some (GoError msg))"
proof -
  have "event_headers_rejected (resp\<lparr>Body := []\<rparr>)"
    using assms(4) by (simp add: event_headers_rejected_def)
  then show ?thesis
    using emptyReply_expected [OF assms(2,3)] assms(1)
      event_from_headers_rejects [of "resp\<lparr>Body := []\<rparr>"]
    by (auto simp: innerUpdateEvent_def Let_def new_Event_def split: prod.splits)
qed

lemma Create_GoError:
  "fst (innerPut L c key [(''If-None-Match'', ''\"*\"'')] val w) = (None, Some (GoError msg)) \<Longrightarrow>
     fst (Create L c key val w) = (None, Some (GoError msg))"
  by (auto simp: Create_def Let_def split: prod.splits)

text \<open>
  C5, as the claim states it: a mutating call that receives the expected status and a
  \<^verbatim>\<open>Location\<close> header that is not of the documented form returns an error and no entity. It
  fails for \<open>Create\<close>: answered by 201 and the header \<^verbatim>\<open>Location: /\<close>, which names no
  collection, no key and no ref, it returns an item with the empty ref and no error.
\<close>

theorem rejected_headers_counterexample:
  "fst (doRequest test_lib (client (test_collection answers_201_slash)) ''PUT'' ''c/k''
          [(''If-None-Match'', ''\"*\"'')] (Some ''{}'') w0)
     = Inr (test_response 201 [(''Location'', ''/'')] [])
   \<and> Header_Get (Header (test_response 201 [(''Location'', ''/'')] [])) ''Location'' = ''/''
   \<and> \<not> Location_names_ref ''/''
   \<and> fst (Create test_lib (test_collection answers_201_slash) ''k'' ''{}'' w0)
     = (Some ((new_Item (test_collection answers_201_slash) ''k'')\<lparr>Value := ''{}'', Ref := []\<rparr>),
        None)"
proof -
  have a: "client (test_collection answers_201_slash) = test_client answers_201_slash"
    "Name (test_collection answers_201_slash) = ''c''"
    by (simp_all add: test_collection_def)
  have b: "Header_Get (Header (test_response 201 [(''Location'', ''/'')] [])) ''Location'' = ''/''"
    by (simp add: test_response_def Header_Get_def)
  have c: "\<not> Location_names_ref ''/''"
    by (simp add: Location_names_ref_def Let_def)
  have d: "fst (emptyReply test_lib (test_client answers_201_slash) ''PUT'' ''c/k''
                  [(''If-None-Match'', ''\"*\"'')] (Some ''{}'') 201 w0)
             = Inr ((test_response 201 [(''Location'', ''/'')] [])\<lparr>Body := []\<rparr>)"
    by (rule emptyReply_expected)
       (simp_all add: doRequest_test answers_201_slash_def test_response_def)
  have e: "fst (Create test_lib (test_collection answers_201_slash) ''k'' ''{}'' w0)
     = (Some ((new_Item (test_collection answers_201_slash) ''k'')\<lparr>Value := ''{}'', Ref := []\<rparr>),
        None)"
    using d
    by (auto simp: Create_def innerPut_def Let_def a test_lib_def test_response_def Header_Get_def
          LastIndex_def slice_from_def split: prod.splits)
  show ?thesis
    by (simp add: a b c e doRequest_test answers_201_slash_def)
qed

text \<open>
  C5, amended. A call that receives its expected success status returns an error and no
  entity when the \<^verbatim>\<open>Location\<close> header is missing or contains no slash (\<open>Create\<close>, \<open>Update\<close>,
  \<open>Item.Update\<close>, through \<open>innerPut\<close>), and when the \<^verbatim>\<open>Location\<close> header is missing, does not have
  exactly eight segments or has a seventh or eighth segment that is not a decimal int64, or
  the \<^verbatim>\<open>Etag\<close> header is missing or does not have exactly three parts at its double quotes
  (\<open>AddEvent\<close>, \<open>UpdateEvent\<close>). These calls never return an entity together with an error.
  Any other header is accepted as it is.
\<close>

theorem rejected_headers_nil_entity:
  "(json_Marshal L val = Inr raw
      \<and> fst (doRequest L (client c) ''PUT'' (Name c @ ''/'' @ key) hs (Some raw) w) = Inr resp
      \<and> StatusCode resp = 201
      \<and> CHR ''/'' \<notin> set (Header_Get (Header resp) ''Location'')
      \<longrightarrow> fst (innerPut L c key hs val w) = (None, Some (GoError ''Missing Location header.'')))
   \<and> (json_Marshal L val = Inr raw
      \<and> fst (doRequest L (client c) ''POST''
                (case ts of Some t \<Rightarrow> Name c @ ''/'' @ key @ ''/events/'' @ ty @ ''/'' @ Itoa (encode_ms t)
                          | None \<Rightarrow> Name c @ ''/'' @ key @ ''/events/'' @ ty)
                [(''Content-Type'', ''application/json'')] (Some raw) w) = Inr resp
      \<and> StatusCode resp = 201 \<and> event_headers_rejected resp
      \<longrightarrow> (\<exists>msg. fst (innerAddEvent L c key ty ts val w) = (None, Some (GoError msg))))
   \<and> (json_Marshal L val = Inr raw
      \<and> fst (doRequest L (client c) ''PUT''
                (Name c @ ''/'' @ key @ ''/events/'' @ ty @ ''/'' @ Itoa (encode_ms t) @ ''/''
                   @ Itoa ordinal)
                hs (Some raw) w) = Inr resp
      \<and> StatusCode resp = 204 \<and> event_headers_rejected resp
      \<longrightarrow> (\<exists>msg. fst (innerUpdateEvent L c key ty t ordinal val hs w) = (None, Some (GoError msg))))
   \<and> (fst (fst (innerPut L c key hs val w)) = None) = (snd (fst (innerPut L c key hs val w)) \<noteq> None)
   \<and> (fst (fst (innerAddEvent L c key ty ts val w)) = None)
       = (snd (fst (innerAddEvent L c key ty ts val w)) \<noteq> None)
   \<and> (fst (fst (innerUpdateEvent L c key ty t ordinal val hs w)) = None)
       = (snd (fst (innerUpdateEvent L c key ty t ordinal val hs w)) \<noteq> None)
   \<and> (fst (innerPut L c key [(''If-None-Match'', ''\"*\"'')] val w) = (None, Some (GoError msg0))
      \<longrightarrow> fst (Create L c key val w) = (None, Some (GoError msg0)))
   \<and> Update L c key val w = innerPut L c key [] val w
   \<and> AddEvent L c key ty val w = innerAddEvent L c key ty None val w
   \<and> UpdateEvent L c key ty t ordinal val w
       = innerUpdateEvent L c key ty t ordinal val [(''Content-Type'', ''application/json'')] w"
  using innerPut_no_slash [where L = L and val = val and raw = raw and c = c and key = key
        and hs = hs and w = w and resp = resp]
    innerAddEvent_rejects [where L = L and val = val and raw = raw and c = c and ts = ts
        and key = key and ty = ty and w = w and resp = resp]
    innerUpdateEvent_rejects [where L = L and val = val and raw = raw and c = c and key = key
        and ty = ty and t = t and ordinal = ordinal and hs = hs and w = w and resp = resp]
    innerPut_nil [where L = L and c = c and key = key and hs = hs and val = val and w = w]
    innerAddEvent_nil [where L = L and c = c and key = key and ty = ty and ts = ts
        and val = val and w = w]
    innerUpdateEvent_nil [where L = L and c = c and key = key and ty = ty and t = t
        and ordinal = ordinal and val = val and hs = hs and w = w]
    Create_GoError [where L = L and c = c and key = key and val = val and w = w and msg = msg0]
  by (simp add: Update_def AddEvent_def UpdateEvent_def del: ex_simps)

theorem rejected_headers_nil_entity_witness:
  "json_Marshal test_lib ''{}'' = Inr ''{}''
   \<and> fst (doRequest test_lib (client (test_collection answers_201_bare)) ''PUT''
            (Name (test_collection answers_201_bare) @ ''/'' @ ''k'') [] (Some ''{}'') w0)
       = Inr (test_response 201 [] [])
   \<and> StatusCode (test_response 201 [] []) = 201
   \<and> CHR ''/'' \<notin> set (Header_Get (Header (test_response 201 [] [])) ''Location'')
   \<and> fst (Update test_lib (test_collection answers_201_bare) ''k'' ''{}'' w0)
       = (None, Some (GoError ''Missing Location header.''))
   \<and> fst (doRequest test_lib (client (test_collection answers_201_no_etag)) ''POST''
            (Name (test_collection answers_201_no_etag) @ ''/'' @ ''k'' @ ''/events/'' @ ''t'')
            [(''Content-Type'', ''application/json'')] (Some ''{}'') w0)
       = Inr (test_response 201 [(''Location'', ''/v0/c/k/events/t/1418419579000/3'')] [])
   \<and> event_headers_rejected
        (test_response 201 [(''Location'', ''/v0/c/k/events/t/1418419579000/3'')] [])
   \<and> (\<exists>msg. fst (AddEvent test_lib (test_collection answers_201_no_etag) ''k'' ''t'' ''{}'' w0)
               = (None, Some (GoError msg)))"
proof -
  have a: "client (test_collection srv) = test_client srv" "Name (test_collection srv) = ''c''" for srv
    by (simp_all add: test_collection_def)
  have b: "json_Marshal test_lib ''{}'' = Inr ''{}''"
    by (simp add: test_lib_def)
  have c: "StatusCode (test_response 201 hs []) = 201"
    "Header_Get (Header (test_response 201 [] [])) ''Location'' = []" for hs
    by (simp_all add: test_response_def Header_Get_def)
  have d: "event_headers_rejected
        (test_response 201 [(''Location'', ''/v0/c/k/events/t/1418419579000/3'')] [])"
    by (simp add: event_headers_rejected_def test_response_def Header_Get_def Let_def)
  have first: "fst (Update test_lib (test_collection answers_201_bare) ''k'' ''{}'' w0)
       = (None, Some (GoError ''Missing Location header.''))"
    using rejected_headers_nil_entity [where L = test_lib and val = "''{}''" and raw = "''{}''"
        and c = "test_collection answers_201_bare" and key = "''k''" and hs = "[]" and w = w0
        and resp = "test_response 201 [] []"]
    by (simp add: a b c doRequest_test answers_201_bare_def del: ex_simps)
  have second: "\<exists>msg. fst (AddEvent test_lib (test_collection answers_201_no_etag) ''k'' ''t'' ''{}'' w0)
               = (None, Some (GoError msg))"
    using rejected_headers_nil_entity [where L = test_lib and val = "''{}''" and raw = "''{}''"
        and c = "test_collection answers_201_no_etag" and key = "''k''" and ty = "''t''"
        and ts = None and w = w0
        and resp = "test_response 201 [(''Location'', ''/v0/c/k/events/t/1418419579000/3'')] []"]
    by (simp add: a b c d doRequest_test answers_201_no_etag_def del: ex_simps)
  show ?thesis
    using first second
    by (simp add: a b c d doRequest_test answers_201_bare_def answers_201_no_etag_def
          del: ex_simps)
qed

subsection \<open>Timestamps on the wire\<close>

lemma sdiv_nonneg: "0 \<le> a \<Longrightarrow> 0 < b \<Longrightarrow> a sdiv b = a div (b :: int)"
  by (cases "a = 0") (simp_all add: signed_divide_int_def)

lemma sdiv_neg: "a < 0 \<Longrightarrow> 0 < b \<Longrightarrow> a sdiv b = - ((- a) div (b :: int))"
  by (simp add: signed_divide_int_def)

lemma mult_sdiv_cancel: "0 < b \<Longrightarrow> (a * b) sdiv b = (a :: int)"
proof (cases "0 \<le> a")
  case True
  assume "0 < b"
  then show ?thesis using True by (simp add: sdiv_nonneg)
next
  case False
  assume b: "0 < b"
  then have "a * b < 0" using False by (simp add: mult_neg_pos)
  then have "(a * b) sdiv b = - ((- (a * b)) div b)"
    using b by (rule sdiv_neg)
  moreover have "(- (a * b)) div b = - a"
  proof -
    have "((- a) * b) div b = - a"
      by (rule nonzero_mult_div_cancel_right) (use b in simp)
    then show ?thesis by simp
  qed
  ultimately show ?thesis by simp
qed

lemma sdiv_mult_bounds:
  fixes y b :: int
  assumes "0 < b"
  shows "(0 \<le> y \<longrightarrow> 0 \<le> y sdiv b * b \<and> y sdiv b * b \<le> y)
       \<and> (y < 0 \<longrightarrow> y \<le> y sdiv b * b \<and> y sdiv b * b \<le> 0)"
proof (intro conjI impI)
  assume y: "0 \<le> y"
  have "y div b * b \<le> y"
    using div_mult_mod_eq [of y b] pos_mod_sign [OF assms, of y] by linarith
  moreover have "0 \<le> y div b * b" using y assms by (simp add: pos_imp_zdiv_nonneg_iff)
  ultimately show "0 \<le> y sdiv b * b" "y sdiv b * b \<le> y"
    using y assms by (simp_all add: sdiv_nonneg)
next
  assume y: "y < 0"
  have a: "(- y) div b * b \<le> - y"
    using div_mult_mod_eq [of "- y" b] pos_mod_sign [OF assms, of "- y"] by linarith
  have b: "0 \<le> (- y) div b * b" using y assms by (simp add: pos_imp_zdiv_nonneg_iff)
  have c: "y sdiv b * b = - ((- y) div b * b)"
    using y assms by (simp add: sdiv_neg)
  show "y \<le> y sdiv b * b" "y sdiv b * b \<le> 0"
    using a b by (simp_all add: c)
qed

lemma wrap64_id: "int64_min \<le> x \<Longrightarrow> x \<le> int64_max \<Longrightarrow> wrap64 x = x"
  by (simp add: wrap64_def int64_min_def int64_max_def)

lemma wrap64_range: "int64_min \<le> wrap64 x \<and> wrap64 x \<le> int64_max"
proof -
  have "0 \<le> (x + 2 ^ 63) mod (2 ^ 64 :: int)" "(x + 2 ^ 63) mod (2 ^ 64 :: int) < 2 ^ 64"
    by simp_all
  then show ?thesis
    by (simp add: wrap64_def int64_min_def int64_max_def)
qed

text \<open>The nanoseconds of an instant since the epoch, as an unbounded integer.\<close>

lemma Unix_total: "sec (Unix s n) * 1000000000 + nsec (Unix s n) = s * 1000000000 + n"
  by (simp add: Unix_def Let_def algebra_simps)

lemma Unix_valid: "valid_Time (Unix s n)"
proof -
  have r: "n - n sdiv 1000000000 * 1000000000 = n smod 1000000000"
    by (rule minus_sdiv_mult_eq_smod)
  have "n smod 1000000000 \<in> {- \<bar>1000000000\<bar> + 1..\<bar>1000000000\<bar> - 1}"
    by (rule smod_int_range) simp
  then have "- 1000000000 < n smod 1000000000" "n smod 1000000000 < 1000000000"
    by simp_all
  then show ?thesis
    unfolding valid_Time_def Unix_def Let_def r by auto
qed

lemma decode_ms_total: "sec (decode_ms ms) * 1000000000 + nsec (decode_ms ms) = ms * 1000000"
proof -
  have "(ms sdiv 1000 * 1000 + ms smod 1000) * 1000000 = ms * 1000000"
    by (simp only: sdiv_mult_smod_eq)
  then show ?thesis
    unfolding decode_ms_def Let_def Unix_total by (simp add: algebra_simps)
qed

lemma decode_ms_valid: "valid_Time (decode_ms ms)"
  unfolding decode_ms_def Let_def by (rule Unix_valid)

lemma Time_unique:
  assumes "valid_Time a" and "valid_Time b"
    and "sec a * 1000000000 + nsec a = sec b * 1000000000 + nsec b"
  shows "a = b"
proof -
  have "sec a = sec b"
    using assms unfolding valid_Time_def by arith
  then show ?thesis
    using assms(3) by simp
qed

lemma encode_decode:
  assumes "int64_min \<le> ms * 1000000" and "ms * 1000000 \<le> int64_max"
  shows "encode_ms (decode_ms ms) = ms"
proof -
  have "UnixNano (decode_ms ms) = ms * 1000000"
    unfolding UnixNano_def decode_ms_total using assms by (rule wrap64_id)
  then show ?thesis
    unfolding encode_ms_def by (simp only: mult_sdiv_cancel)
qed

lemma encode_ms_range:
  "int64_min \<le> encode_ms t * 1000000 \<and> encode_ms t * 1000000 \<le> int64_max"
proof -
  have le: "int64_min \<le> 0" "0 \<le> int64_max"
    by (simp_all add: int64_min_def int64_max_def)
  show ?thesis
    using sdiv_mult_bounds [of 1000000 "UnixNano t"] wrap64_range [of "sec t * 1000000000 + nsec t"] le
    unfolding encode_ms_def UnixNano_def by (cases "0 \<le> wrap64 (sec t * 1000000000 + nsec t)") auto
qed

lemma roundtrip_idem:
  "decode_ms (encode_ms (decode_ms (encode_ms t))) = decode_ms (encode_ms t)"
  using encode_ms_range [of t] by (simp only: encode_decode)

lemma truncate_ms_valid: "valid_Time t \<Longrightarrow> valid_Time (truncate_ms t)"
proof -
  assume "valid_Time t"
  moreover have "0 \<le> nsec t mod 1000000" by simp
  moreover have "nsec t mod 1000000 \<le> nsec t" if "0 \<le> nsec t"
    using that by (rule zmod_le_nonneg_dividend)
  ultimately show ?thesis
    by (auto simp: valid_Time_def truncate_ms_def)
qed

lemma roundtrip_truncates:
  assumes "valid_Time t" and "0 \<le> sec t" and "sec t * 1000000000 + nsec t \<le> int64_max"
  shows "decode_ms (encode_ms t) = truncate_ms t"
proof -
  define x where "x = sec t * 1000000000 + nsec t"
  have x0: "0 \<le> x"
    using assms(1,2) by (simp add: x_def valid_Time_def)
  then have "int64_min \<le> x"
    by (simp add: int64_min_def)
  then have enc: "encode_ms t = x div 1000000"
    using assms(3) x0 by (simp add: encode_ms_def UnixNano_def wrap64_id sdiv_nonneg flip: x_def)
  have "x = sec t * 1000 * 1000000 + nsec t"
    by (simp add: x_def)
  then have m: "x mod 1000000 = nsec t mod 1000000"
    by (simp only: mod_mult_self3)
  have dm: "x div 1000000 * 1000000 = x - x mod 1000000"
    by (rule minus_mod_eq_div_mult [symmetric])
  have tr: "sec (truncate_ms t) * 1000000000 + nsec (truncate_ms t) = x - nsec t mod 1000000"
    by (simp add: truncate_ms_def x_def)
  have "sec (decode_ms (encode_ms t)) * 1000000000 + nsec (decode_ms (encode_ms t))
        = sec (truncate_ms t) * 1000000000 + nsec (truncate_ms t)"
    by (simp only: decode_ms_total enc tr dm m)
  then show ?thesis
    by (intro Time_unique decode_ms_valid truncate_ms_valid assms(1))
qed

text \<open>
  C8, amended. Timestamps go on the wire as \<^verbatim>\<open>UnixNano()/1000000\<close> and come back as
  \<^verbatim>\<open>time.Unix(ms/1000, (ms%1000)*1000000)\<close>. For every instant from the epoch on whose
  nanoseconds since the epoch fit an int64, decoding the encoding gives the instant cut to
  millisecond precision. For every instant at all, the round trip gives a well-formed
  instant, namely the epoch plus \<^verbatim>\<open>UnixNano()/1000000\<close> milliseconds (the division rounds
  towards zero), and applying the round trip twice gives the same as applying it once.
\<close>

theorem timestamp_roundtrip:
  "(valid_Time t \<and> 0 \<le> sec t \<and> sec t * 1000000000 + nsec t \<le> int64_max \<longrightarrow>
      decode_ms (encode_ms t) = truncate_ms t)
   \<and> decode_ms (encode_ms (decode_ms (encode_ms t))) = decode_ms (encode_ms t)
   \<and> valid_Time (decode_ms (encode_ms t))
   \<and> sec (decode_ms (encode_ms t)) * 1000000000 + nsec (decode_ms (encode_ms t))
       = UnixNano t sdiv 1000000 * 1000000"
  using roundtrip_truncates [of t] roundtrip_idem [of t] decode_ms_valid [of "encode_ms t"]
    decode_ms_total [of "encode_ms t"]
  by (simp add: encode_ms_def)

theorem timestamp_roundtrip_witness:
  "valid_Time \<lparr>sec = 1418419579, nsec = 123456789\<rparr>
   \<and> 0 \<le> sec \<lparr>sec = 1418419579, nsec = 123456789\<rparr>
   \<and> sec \<lparr>sec = 1418419579, nsec = 123456789\<rparr> * 1000000000
        + nsec \<lparr>sec = 1418419579, nsec = 123456789\<rparr> \<le> int64_max
   \<and> decode_ms (encode_ms \<lparr>sec = 1418419579, nsec = 123456789\<rparr>)
       = \<lparr>sec = 1418419579, nsec = 123000000\<rparr>"
  using timestamp_roundtrip [of "\<lparr>sec = 1418419579, nsec = 123456789\<rparr>"]
  by (simp add: valid_Time_def int64_max_def truncate_ms_def)

text \<open>
  C8, as the claim states it: for every instant, decoding the encoding gives the instant cut
  to millisecond precision. It fails before the epoch, where the division rounds up: one
  nanosecond before the epoch comes back as the epoch itself, not as 23:59:59.999. It also
  fails where \<^verbatim>\<open>UnixNano\<close> overflows: the zero \<^verbatim>\<open>time.Time\<close> (year 1) comes back as an instant in
  the year 1754.
\<close>

theorem timestamp_roundtrip_counterexample:
  "valid_Time \<lparr>sec = - 1, nsec = 999999999\<rparr>
   \<and> decode_ms (encode_ms \<lparr>sec = - 1, nsec = 999999999\<rparr>) = \<lparr>sec = 0, nsec = 0\<rparr>
   \<and> truncate_ms \<lparr>sec = - 1, nsec = 999999999\<rparr> = \<lparr>sec = - 1, nsec = 999000000\<rparr>
   \<and> valid_Time zero_Time
   \<and> decode_ms (encode_ms zero_Time) = \<lparr>sec = - 6795364579, nsec = 129000000\<rparr>
   \<and> truncate_ms zero_Time = zero_Time"
proof -
  have a: "valid_Time \<lparr>sec = - 1, nsec = 999999999\<rparr>" "valid_Time zero_Time"
    by (simp_all add: valid_Time_def zero_Time_def)
  have b: "encode_ms \<lparr>sec = - 1, nsec = 999999999\<rparr> = 0"
    by code_simp
  have c: "decode_ms 0 = \<lparr>sec = 0, nsec = 0\<rparr>"
    by code_simp
  have d: "truncate_ms \<lparr>sec = - 1, nsec = 999999999\<rparr> = \<lparr>sec = - 1, nsec = 999000000\<rparr>"
    "truncate_ms zero_Time = zero_Time"
    by (simp_all add: truncate_ms_def zero_Time_def)
  have e: "encode_ms zero_Time = - 6795364578871"
    by code_simp
  have f: "decode_ms (- 6795364578871) = \<lparr>sec = - 6795364579, nsec = 129000000\<rparr>"
    by code_simp
  show ?thesis
    by (simp only: a b c d e f simp_thms)
qed

end
